theory Spec2Isabelle
  imports Complex_Main "HOL-Library.Word"
begin

section \<open>Python values shared by both programs\<close>

type_synonym byte = "8 word"

text \<open>
  A Python exception that is not an \<open>HTTPException\<close>: the class name and \<open>str(e)\<close>.
\<close>

datatype py_exception = PyExc string string

fun exc_str :: "py_exception \<Rightarrow> string" where
  "exc_str (PyExc cls msg) = msg"

definition bind_e :: "'e + 'a \<Rightarrow> ('a \<Rightarrow> 'e + 'b) \<Rightarrow> 'e + 'b" where
  "bind_e m f = (case m of Inl e \<Rightarrow> Inl e | Inr x \<Rightarrow> f x)"

section \<open>The WAV writer used by \<open>synthesize_file\<close> (server.py, lines 92 to 99)\<close>

subsection \<open>\<open>struct.pack\<close> and \<open>io.BytesIO\<close>\<close>

text \<open>
  Modelled from the spec: Python's standard modules \<open>struct\<close>, \<open>io\<close> and \<open>wave\<close> are
  not part of the repository. The spec asks for a 44-byte canonical RIFF header with
  little-endian fields; the definitions below follow CPython's \<open>wave.Wave_write\<close>,
  which is what \<open>wave.open(buf, "wb")\<close> returns. \<open>struct.pack\<close> with the formats
  \<open><L\<close> and \<open><H\<close> raises \<open>struct.error\<close> when the number does not fit the field.
\<close>

fun le_bytes :: "nat \<Rightarrow> nat \<Rightarrow> byte list" where
  "le_bytes 0 n = []"
| "le_bytes (Suc k) n = word_of_nat (n mod 256) # le_bytes k (n div 256)"

fun le_nat :: "byte list \<Rightarrow> nat" where
  "le_nat [] = 0"
| "le_nat (b # bs) = unat b + 256 * le_nat bs"

definition struct_error :: py_exception where
  "struct_error = PyExc ''struct.error'' ''argument out of range''"

definition pack_L :: "nat \<Rightarrow> py_exception + byte list" where
  "pack_L n = (if n < 2 ^ 32 then Inr (le_bytes 4 n) else Inl struct_error)"

definition pack_H :: "nat \<Rightarrow> py_exception + byte list" where
  "pack_H n = (if n < 2 ^ 16 then Inr (le_bytes 2 n) else Inl struct_error)"

definition ascii :: "string \<Rightarrow> byte list" where
  "ascii s = map (\<lambda>c. word_of_nat (of_char c)) s"

record bytesio =
  buf :: "byte list"
  pos :: nat

definition bytesio_new :: bytesio where
  "bytesio_new = \<lparr>buf = [], pos = 0\<rparr>"

text \<open>\<open>BytesIO.write\<close> overwrites from the position on and extends the buffer as needed.\<close>

definition bio_write :: "byte list \<Rightarrow> bytesio \<Rightarrow> bytesio" where
  "bio_write d f =
     \<lparr>buf = take (pos f) (buf f) @ replicate (pos f - length (buf f)) 0 @ d
              @ drop (pos f + length d) (buf f),
      pos = pos f + length d\<rparr>"

definition bio_seek :: "nat \<Rightarrow> bytesio \<Rightarrow> bytesio" where
  "bio_seek p f = f\<lparr>pos := p\<rparr>"

text \<open>What a reader gets from the current position to the end.\<close>

definition bio_read :: "bytesio \<Rightarrow> byte list" where
  "bio_read f = drop (pos f) (buf f)"

subsection \<open>\<open>wave.Wave_write\<close>\<close>

record wave_write =
  wfile :: bytesio
  nchannels :: nat
  sampwidth :: nat
  framerate :: nat
  nframes :: nat
  nframeswritten :: nat
  datawritten :: nat
  datalength :: nat
  headerwritten :: bool
  form_length_pos :: nat
  data_length_pos :: nat

definition wave_error :: "string \<Rightarrow> py_exception" where
  "wave_error msg = PyExc ''wave.Error'' msg"

definition initfp :: "bytesio \<Rightarrow> wave_write" where
  "initfp f = \<lparr>wfile = f, nchannels = 0, sampwidth = 0, framerate = 0, nframes = 0,
     nframeswritten = 0, datawritten = 0, datalength = 0, headerwritten = False,
     form_length_pos = 0, data_length_pos = 0\<rparr>"

definition setnchannels :: "nat \<Rightarrow> wave_write \<Rightarrow> py_exception + wave_write" where
  "setnchannels n w =
     (if datawritten w \<noteq> 0
      then Inl (wave_error ''cannot change parameters after starting to write'')
      else if n < 1 then Inl (wave_error ''bad # of channels'')
      else Inr (w\<lparr>nchannels := n\<rparr>))"

definition setsampwidth :: "nat \<Rightarrow> wave_write \<Rightarrow> py_exception + wave_write" where
  "setsampwidth n w =
     (if datawritten w \<noteq> 0
      then Inl (wave_error ''cannot change parameters after starting to write'')
      else if n < 1 \<or> n > 4 then Inl (wave_error ''bad sample width'')
      else Inr (w\<lparr>sampwidth := n\<rparr>))"

definition setframerate :: "nat \<Rightarrow> wave_write \<Rightarrow> py_exception + wave_write" where
  "setframerate n w =
     (if datawritten w \<noteq> 0
      then Inl (wave_error ''cannot change parameters after starting to write'')
      else if n \<le> 0 then Inl (wave_error ''bad frame rate'')
      else Inr (w\<lparr>framerate := n\<rparr>))"

text \<open>
  \<open>_write_header\<close>: the one \<open>struct.pack('<L4s4sLHHLLHH4s', ...)\<close> call packs the
  fields in order and fails as a whole when one of them is out of range.
\<close>

definition write_header :: "nat \<Rightarrow> wave_write \<Rightarrow> py_exception + wave_write" where
  "write_header initlength w =
     (let f1 = bio_write (ascii ''RIFF'') (wfile w);
          nf = (if nframes w = 0 then initlength div (nchannels w * sampwidth w)
                else nframes w);
          dl = nf * nchannels w * sampwidth w;
          flp = pos f1
      in bind_e (pack_L (36 + dl)) (\<lambda>b_form.
         bind_e (pack_L 16) (\<lambda>b_fmtlen.
         bind_e (pack_H 1) (\<lambda>b_pcm.
         bind_e (pack_H (nchannels w)) (\<lambda>b_nch.
         bind_e (pack_L (framerate w)) (\<lambda>b_rate.
         bind_e (pack_L (nchannels w * framerate w * sampwidth w)) (\<lambda>b_byterate.
         bind_e (pack_H (nchannels w * sampwidth w)) (\<lambda>b_align.
         bind_e (pack_H (sampwidth w * 8)) (\<lambda>b_bits.
           let f2 = bio_write (b_form @ ascii ''WAVE'' @ ascii ''fmt '' @ b_fmtlen @ b_pcm
                       @ b_nch @ b_rate @ b_byterate @ b_align @ b_bits @ ascii ''data'') f1;
               dlp = pos f2
           in bind_e (pack_L dl) (\<lambda>b_data.
                Inr (w\<lparr>wfile := bio_write b_data f2, nframes := nf, datalength := dl,
                       form_length_pos := flp, data_length_pos := dlp,
                       headerwritten := True\<rparr>)))))))))))"

definition ensure_header_written :: "nat \<Rightarrow> wave_write \<Rightarrow> py_exception + wave_write" where
  "ensure_header_written datasize w =
     (if \<not> headerwritten w then
        (if nchannels w = 0 then Inl (wave_error ''# channels not specified'')
         else if sampwidth w = 0 then Inl (wave_error ''sample width not specified'')
         else if framerate w = 0 then Inl (wave_error ''sampling rate not specified'')
         else write_header datasize w)
      else Inr w)"

text \<open>
  \<open>writeframesraw\<close> on a little-endian host (no byte swap); \<open>_convert\<close> is \<open>None\<close>.
\<close>

definition writeframesraw :: "byte list \<Rightarrow> wave_write \<Rightarrow> py_exception + wave_write" where
  "writeframesraw d w =
     bind_e (ensure_header_written (length d) w) (\<lambda>w1.
       let nf = length d div (sampwidth w1 * nchannels w1)
       in Inr (w1\<lparr>wfile := bio_write d (wfile w1),
                  datawritten := datawritten w1 + length d,
                  nframeswritten := nframeswritten w1 + nf\<rparr>))"

definition patchheader :: "wave_write \<Rightarrow> py_exception + wave_write" where
  "patchheader w =
     (if datawritten w = datalength w then Inr w
      else
        let curpos = pos (wfile w);
            f1 = bio_seek (form_length_pos w) (wfile w)
        in bind_e (pack_L (36 + datawritten w)) (\<lambda>b1.
             let f2 = bio_seek (data_length_pos w) (bio_write b1 f1)
             in bind_e (pack_L (datawritten w)) (\<lambda>b2.
                  Inr (w\<lparr>wfile := bio_seek curpos (bio_write b2 f2),
                         datalength := datawritten w\<rparr>))))"

definition writeframes :: "byte list \<Rightarrow> wave_write \<Rightarrow> py_exception + wave_write" where
  "writeframes d w =
     bind_e (writeframesraw d w) (\<lambda>w1.
       if datalength w1 \<noteq> datawritten w1 then patchheader w1 else Inr w1)"

definition wave_close :: "wave_write \<Rightarrow> py_exception + wave_write" where
  "wave_close w =
     bind_e (ensure_header_written 0 w) (\<lambda>w1.
       if datalength w1 \<noteq> datawritten w1 then patchheader w1 else Inr w1)"

subsection \<open>Lines 92 to 99 of server.py\<close>

text \<open>
  \<^verbatim>\<open>
  buf = io.BytesIO()
  with wave.open(buf, "wb") as wf:
      wf.setnchannels(1)
      wf.setsampwidth(2)
      wf.setframerate(24000)
      wf.writeframes(pcm)
  buf.seek(0)
  \<close>
  Leaving the \<open>with\<close> block calls \<open>close()\<close>. An exception inside the block leaves the
  handler whatever \<open>close()\<close> then does, so the model stops at the first exception.
  The result is what the response streams from \<open>buf\<close> after \<open>seek(0)\<close>.
\<close>

definition write_wav :: "byte list \<Rightarrow> py_exception + byte list" where
  "write_wav pcm =
     bind_e (setnchannels 1 (initfp bytesio_new)) (\<lambda>w1.
     bind_e (setsampwidth 2 w1) (\<lambda>w2.
     bind_e (setframerate 24000 w2) (\<lambda>w3.
     bind_e (writeframes pcm w3) (\<lambda>w4.
     bind_e (wave_close w4) (\<lambda>w5.
       Inr (bio_read (bio_seek 0 (wfile w5))))))))"

text \<open>The fields of a canonical 44-byte RIFF/WAVE header, read back from the bytes.\<close>

definition field :: "nat \<Rightarrow> nat \<Rightarrow> byte list \<Rightarrow> byte list" where
  "field off len bs = take len (drop off bs)"

record wav_header =
  ChunkID :: "byte list"
  ChunkSize :: nat
  Format :: "byte list"
  Subchunk1ID :: "byte list"
  Subchunk1Size :: nat
  AudioFormat :: nat
  NumChannels :: nat
  SampleRate :: nat
  ByteRate :: nat
  BlockAlign :: nat
  BitsPerSample :: nat
  Subchunk2ID :: "byte list"
  Subchunk2Size :: nat

definition parse_header :: "byte list \<Rightarrow> wav_header" where
  "parse_header bs =
     \<lparr>ChunkID = field 0 4 bs, ChunkSize = le_nat (field 4 4 bs), Format = field 8 4 bs,
      Subchunk1ID = field 12 4 bs, Subchunk1Size = le_nat (field 16 4 bs),
      AudioFormat = le_nat (field 20 2 bs), NumChannels = le_nat (field 22 2 bs),
      SampleRate = le_nat (field 24 4 bs), ByteRate = le_nat (field 28 4 bs),
      BlockAlign = le_nat (field 32 2 bs), BitsPerSample = le_nat (field 34 2 bs),
      Subchunk2ID = field 36 4 bs, Subchunk2Size = le_nat (field 40 4 bs)\<rparr>"

section \<open>server.py\<close>

subsection \<open>Data and the environment of the process\<close>

text \<open>\<open>class Settings(BaseModel)\<close> with its defaults.\<close>

record settings =
  lang_code :: string
  voice :: string

definition Settings :: settings where
  "Settings = \<lparr>lang_code = ''a'', voice = ''af_sky''\<rparr>"

text \<open>
  \<open>KModel\<close> and \<open>KPipeline\<close> come from the external package \<open>kokoro\<close>. A model is
  identified by the path it was loaded from, a pipeline by the model it shares and its
  language code. A frame of audio is represented by the value of its \<open>tobytes()\<close>.
\<close>

datatype kmodel = KModel string

record kpipeline =
  pl_model :: kmodel
  pl_lang_code :: string

type_synonym audio_frame = "byte list"

text \<open>
  What the handlers read from outside the program:
  whether \<open>CORE_MODEL_PATH\<close> exists; the names of the entries of \<open>VOICE_DIR\<close>
  (\<open>None\<close> when the directory does not exist); whether the constructor
  \<open>KPipeline(model=..., lang_code=...)\<close> raises for a language code; what calling the
  pipeline on a text and a voice yields (the frames, or an exception); whether
  \<open>sd.play\<close> raises.
\<close>

record srv_env =
  core_model_exists :: bool
  voice_dir :: "string list option"
  kpipeline_init :: "string \<Rightarrow> py_exception option"
  kpipeline_call :: "kpipeline \<Rightarrow> string \<Rightarrow> string \<Rightarrow> py_exception + audio_frame list"
  sd_play_live :: "audio_frame \<Rightarrow> py_exception option"

datatype srv_event =
    LoadKModel string
  | NewKPipeline kmodel string
  | CallPipeline kpipeline string string
  | PlayFrame audio_frame

record server_state =
  settings :: settings
  pipeline :: kpipeline
  core_model :: kmodel
  trace :: "srv_event list"

text \<open>
  The \<open>detail\<close> of an \<open>HTTPException\<close> keeps the arguments of the f-string.
  An exception that is not an \<open>HTTPException\<close> leaves the handler and the framework
  answers 500.
\<close>

datatype detail = VoiceNotFound string "string list" | TextRequired | NoAudioGenerated

datatype srv_error = HTTPException nat detail | Unhandled py_exception

datatype payload =
    SettingsOut string string "string list"
  | WavAttachment "byte list"
  | Played

type_synonym response = "srv_error + payload"

fun status_code :: "response \<Rightarrow> nat" where
  "status_code (Inl (HTTPException c d)) = c"
| "status_code (Inl (Unhandled e)) = 500"
| "status_code (Inr p) = 200"

definition CORE_MODEL_PATH :: string where
  "CORE_MODEL_PATH = ''models/kokoro-v1_0.pth''"

subsection \<open>Module initialisation (lines 26 to 39)\<close>

definition create_pipeline ::
  "srv_env \<Rightarrow> kmodel \<Rightarrow> string \<Rightarrow> srv_event list \<Rightarrow> (py_exception + kpipeline) \<times> srv_event list" where
  "create_pipeline env cm lc tr =
     (case kpipeline_init env lc of
        Some e \<Rightarrow> (Inl e, tr @ [NewKPipeline cm lc])
      | None \<Rightarrow> (Inr \<lparr>pl_model = cm, pl_lang_code = lc\<rparr>, tr @ [NewKPipeline cm lc]))"

definition startup :: "srv_env \<Rightarrow> py_exception + server_state" where
  "startup env =
     (if \<not> core_model_exists env
      then Inl (PyExc ''RuntimeError'' (''Core model not found at '' @ CORE_MODEL_PATH))
      else
        let cm = KModel CORE_MODEL_PATH;
            tr = [LoadKModel CORE_MODEL_PATH];
            st = Settings
        in case create_pipeline env cm (lang_code st) tr of
             (Inl e, tr') \<Rightarrow> Inl e
           | (Inr p, tr') \<Rightarrow> Inr \<lparr>settings = st, pipeline = p, core_model = cm, trace = tr'\<rparr>)"

subsection \<open>\<open>get_available_voices\<close> and the settings handlers\<close>

definition endswith :: "string \<Rightarrow> string \<Rightarrow> bool" where
  "endswith s suffix = (length suffix \<le> length s \<and> drop (length s - length suffix) s = suffix)"

text \<open>\<open>VOICE_DIR.glob("*.pt")\<close> keeps the entries whose name ends in \<open>.pt\<close>.\<close>

definition get_available_voices :: "srv_env \<Rightarrow> string list" where
  "get_available_voices env =
     (case voice_dir env of
        None \<Rightarrow> []
      | Some names \<Rightarrow> filter (\<lambda>n. endswith n ''.pt'') names)"

definition get_settings :: "srv_env \<Rightarrow> server_state \<Rightarrow> response \<times> server_state" where
  "get_settings env s =
     (Inr (SettingsOut (lang_code (settings s)) (voice (settings s)) (get_available_voices env)), s)"

text \<open>
  \<open>update_settings\<close> assigns the global \<open>settings\<close> (line 67) before it builds the
  pipeline (line 68): an exception of the constructor leaves the new settings stored.
\<close>

definition update_settings :: "srv_env \<Rightarrow> settings \<Rightarrow> server_state \<Rightarrow> response \<times> server_state" where
  "update_settings env new s =
     (let voices = get_available_voices env in
      if voice new \<notin> set voices
      then (Inl (HTTPException 400 (VoiceNotFound (voice new) voices)), s)
      else
        let s1 = s\<lparr>settings := new\<rparr> in
        case create_pipeline env (core_model s1) (lang_code (settings s1)) (trace s1) of
          (Inl e, tr) \<Rightarrow> (Inl (Unhandled e), s1\<lparr>trace := tr\<rparr>)
        | (Inr p, tr) \<Rightarrow>
            let s2 = s1\<lparr>pipeline := p, trace := tr\<rparr>
            in (Inr (SettingsOut (lang_code (settings s2)) (voice (settings s2)) voices), s2))"

subsection \<open>The synthesis handlers\<close>

text \<open>
  The JSON body of a synthesis request: each key may be absent. \<open>str.strip()\<close> removes
  the white space of Python at both ends; a character is its code point below 256.
\<close>

record synth_request =
  req_text :: "string option"
  req_voice :: "string option"

definition isspace :: "char \<Rightarrow> bool" where
  "isspace c = ((of_char c :: nat) \<in> {9, 10, 11, 12, 13, 28, 29, 30, 31, 32, 133, 160})"

definition strip :: "string \<Rightarrow> string" where
  "strip s = rev (dropWhile isspace (rev (dropWhile isspace s)))"

definition synthesize_file :: "srv_env \<Rightarrow> synth_request \<Rightarrow> server_state \<Rightarrow> response \<times> server_state" where
  "synthesize_file env data s =
     (let text = strip (case req_text data of None \<Rightarrow> [] | Some t \<Rightarrow> t);
          v = (case req_voice data of None \<Rightarrow> voice (settings s) | Some v \<Rightarrow> v)
      in if text = [] then (Inl (HTTPException 400 TextRequired), s)
         else
           let s1 = s\<lparr>trace := trace s @ [CallPipeline (pipeline s) text v]\<rparr> in
           case kpipeline_call env (pipeline s) text v of
             Inl e \<Rightarrow> (Inl (Unhandled e), s1)
           | Inr frames \<Rightarrow>
               if frames = [] then (Inl (HTTPException 500 NoAudioGenerated), s1)
               else
                 (case write_wav (concat frames) of
                    Inl e \<Rightarrow> (Inl (Unhandled e), s1)
                  | Inr body \<Rightarrow> (Inr (WavAttachment body), s1)))"

text \<open>\<open>play_live\<close> plays the frames in order and stops at the first that raises.\<close>

fun play_frames :: "srv_env \<Rightarrow> audio_frame list \<Rightarrow> srv_event list \<Rightarrow> py_exception option \<times> srv_event list" where
  "play_frames env [] tr = (None, tr)"
| "play_frames env (a # as) tr =
     (case sd_play_live env a of
        Some e \<Rightarrow> (Some e, tr @ [PlayFrame a])
      | None \<Rightarrow> play_frames env as (tr @ [PlayFrame a]))"

definition play_live :: "srv_env \<Rightarrow> synth_request \<Rightarrow> server_state \<Rightarrow> response \<times> server_state" where
  "play_live env data s =
     (let text = strip (case req_text data of None \<Rightarrow> [] | Some t \<Rightarrow> t);
          v = (case req_voice data of None \<Rightarrow> voice (settings s) | Some v \<Rightarrow> v)
      in if text = [] then (Inl (HTTPException 400 TextRequired), s)
         else
           let s1 = s\<lparr>trace := trace s @ [CallPipeline (pipeline s) text v]\<rparr> in
           case kpipeline_call env (pipeline s) text v of
             Inl e \<Rightarrow> (Inl (Unhandled e), s1)
           | Inr frames \<Rightarrow>
               (case play_frames env frames (trace s1) of
                  (Some e, tr) \<Rightarrow> (Inl (Unhandled e), s1\<lparr>trace := tr\<rparr>)
                | (None, tr) \<Rightarrow> (Inr Played, s1\<lparr>trace := tr\<rparr>)))"

subsection \<open>A run of the server\<close>

datatype request =
    GET_settings
  | POST_settings settings
  | POST_synthesize_file synth_request
  | POST_play_live synth_request

fun handle :: "srv_env \<Rightarrow> request \<Rightarrow> server_state \<Rightarrow> response \<times> server_state" where
  "handle env GET_settings s = get_settings env s"
| "handle env (POST_settings new) s = update_settings env new s"
| "handle env (POST_synthesize_file d) s = synthesize_file env d s"
| "handle env (POST_play_live d) s = play_live env d s"

text \<open>
  Requests are handled one after the other, each in the environment of its moment
  (the voice directory may change between two requests).
\<close>

fun serve :: "(srv_env \<times> request) list \<Rightarrow> server_state \<Rightarrow> server_state" where
  "serve [] s = s"
| "serve ((env, r) # rs) s = serve rs (snd (handle env r s))"

section \<open>kokorofile.py\<close>

subsection \<open>The environment, the file system and what the program does to the outside\<close>

text \<open>
  \<open>urllib.request.urlretrieve(url, path)\<close> opens the URL, then opens the file for
  writing, then copies the content. What the network does: the content arrives, or the
  request raises before anything is written (\<open>None\<close>), or the transfer raises in the
  middle and leaves a truncated file behind (\<open>Some\<close> of what was written).
\<close>

datatype fetch = Fetched string | FetchFailed py_exception "string option"

type_synonym audio = "real list"

text \<open>
  What the program gets from outside: the directories of \<open>platformdirs\<close>, the network,
  the external engine \<open>kokoro_onnx.Kokoro\<close> (its constructor and its \<open>create\<close>),
  \<open>soundfile.write\<close> (the content it writes, or an exception), \<open>sounddevice\<close>,
  the exception that opening and reading a file raises, if any (no permission, bytes that
  do not decode), and what reading the standard input gives (its content, or an
  exception). The speed is a Python float, passed through unchanged.
\<close>

record cli_env =
  user_cache_dir :: string
  user_data_dir :: string
  urlretrieve :: "string \<Rightarrow> fetch"
  Kokoro :: "string \<Rightarrow> string \<Rightarrow> py_exception option"
  kokoro_create :: "string \<Rightarrow> string \<Rightarrow> real \<Rightarrow> string \<Rightarrow> py_exception + audio \<times> nat"
  sf_write :: "string \<Rightarrow> audio \<Rightarrow> nat \<Rightarrow> py_exception + string"
  sd_play :: "audio \<Rightarrow> nat \<Rightarrow> int option \<Rightarrow> py_exception option"
  query_devices :: "py_exception + string"
  read_error :: "string \<Rightarrow> py_exception option"
  stdin_read :: "py_exception + string"

datatype cli_event =
    BasicConfig bool
  | LogInfoDownloading string
  | LogInfoGenerating string real string
  | LogError string
  | Stdout string
  | Stderr string
  | Traceback py_exception
  | MakeDirs string
  | UrlRetrieve string string
  | Downloaded string
  | KokoroInit string string
  | KokoroCreate string string real string
  | SfWrite string
  | SdPlay "int option"
  | SdWait
  | QueryDevices
  | ServerBanner string int
  | UvicornRun string int

text \<open>
  The file system (regular files with their content, directories by their path without
  a slash at the end) and the sequence of effects so far. \<open>logging\<close> writes to the standard error stream once
  \<open>basicConfig\<close> has run, and an uncaught exception prints its traceback there.
\<close>

record cli_state =
  files :: "string \<rightharpoonup> string"
  dirs :: "string set"
  events :: "cli_event list"


type_synonym 'a cli = "cli_state \<Rightarrow> (py_exception + 'a) \<times> cli_state"

definition return_c :: "'a \<Rightarrow> 'a cli" where
  "return_c x = (\<lambda>s. (Inr x, s))"

definition raise_c :: "py_exception \<Rightarrow> 'a cli" where
  "raise_c e = (\<lambda>s. (Inl e, s))"

definition bind_c :: "'a cli \<Rightarrow> ('a \<Rightarrow> 'b cli) \<Rightarrow> 'b cli" where
  "bind_c m f = (\<lambda>s. case m s of (Inl e, s') \<Rightarrow> (Inl e, s') | (Inr x, s') \<Rightarrow> f x s')"

definition emit :: "cli_event \<Rightarrow> unit cli" where
  "emit ev = (\<lambda>s. (Inr (), s\<lparr>events := events s @ [ev]\<rparr>))"

text \<open>
  \<open>os.path.join\<close>, \<open>os.path.basename\<close> and \<open>os.path.dirname\<close> of \<open>posixpath\<close>.
  \<open>norm_dir\<close> drops the slashes at the end of a path that is not the root.
\<close>

definition is_slash :: "char \<Rightarrow> bool" where
  "is_slash c = (c = CHR ''/'')"

definition norm_dir :: "string \<Rightarrow> string" where
  "norm_dir p = (if list_all is_slash p then p else rev (dropWhile is_slash (rev p)))"

definition dirname :: "string \<Rightarrow> string" where
  "dirname p = norm_dir (rev (dropWhile (\<lambda>c. \<not> is_slash c) (rev p)))"

text \<open>
  The root exists; any other directory exists when it has been created. A file can be
  created where its directory exists; a path without a directory part is in the working
  directory.
\<close>

definition isdir :: "cli_state \<Rightarrow> string \<Rightarrow> bool" where
  "isdir s p = (p \<noteq> [] \<and> (list_all is_slash p \<or> norm_dir p \<in> dirs s))"

definition path_exists :: "cli_state \<Rightarrow> string \<Rightarrow> bool" where
  "path_exists s p = (p \<in> dom (files s) \<or> isdir s p)"

definition can_create :: "cli_state \<Rightarrow> string \<Rightarrow> bool" where
  "can_create s p = (dirname p = [] \<or> isdir s (dirname p))"

definition path_join :: "string \<Rightarrow> string \<Rightarrow> string" where
  "path_join a b =
     (if b \<noteq> [] \<and> hd b = CHR ''/'' then b
      else if a = [] \<or> last a = CHR ''/'' then a @ b
      else a @ ''/'' @ b)"

definition basename :: "string \<Rightarrow> string" where
  "basename p = rev (takeWhile (\<lambda>c. c \<noteq> CHR ''/'') (rev p))"

text \<open>
  \<open>os.makedirs(p, exist_ok=True)\<close> raises for the empty path and when \<open>p\<close> is a
  regular file; the directories above \<open>p\<close> are not tracked.
\<close>

definition makedirs :: "string \<Rightarrow> unit cli" where
  "makedirs p = (\<lambda>s.
     if p = []
     then (Inl (PyExc ''FileNotFoundError'' p), s\<lparr>events := events s @ [MakeDirs p]\<rparr>)
     else if p \<in> dom (files s) \<or> norm_dir p \<in> dom (files s)
     then (Inl (PyExc ''FileExistsError'' p), s\<lparr>events := events s @ [MakeDirs p]\<rparr>)
     else (Inr (), s\<lparr>dirs := insert (norm_dir p) (dirs s), events := events s @ [MakeDirs p]\<rparr>))"

subsection \<open>\<open>get_cache_dirs\<close> and \<open>download_model_files\<close>\<close>

definition get_cache_dirs :: "cli_env \<Rightarrow> (string \<times> string) cli" where
  "get_cache_dirs env =
     bind_c (makedirs (user_cache_dir env)) (\<lambda>_.
     bind_c (makedirs (user_data_dir env)) (\<lambda>_.
       return_c (user_cache_dir env, user_data_dir env)))"

definition model_url :: string where
  "model_url = ''https://github.com/thewh1teagle/kokoro-onnx/releases/download/model-files-v1.0/kokoro-v1.0.onnx''"

definition voices_url :: string where
  "voices_url = ''https://github.com/thewh1teagle/kokoro-onnx/releases/download/model-files-v1.0/voices-v1.0.bin''"

text \<open>
  The inner \<open>download_file\<close>. When the request has gone through and the directory of
  the path does not exist, opening the file raises \<open>FileNotFoundError\<close> and nothing is
  written.
\<close>

definition download_file :: "cli_env \<Rightarrow> string \<Rightarrow> string \<Rightarrow> string cli" where
  "download_file env url path = (\<lambda>s.
     if \<not> path_exists s path then
       (let s1 = s\<lparr>events := events s @ [LogInfoDownloading (basename path), UrlRetrieve url path]\<rparr>
        in case urlretrieve env url of
             Fetched content \<Rightarrow>
               if can_create s path then
                 (Inr path, s1\<lparr>files := (files s1)(path \<mapsto> content),
                                 events := events s1 @ [Downloaded path]\<rparr>)
               else (Inl (PyExc ''FileNotFoundError'' path), s1)
           | FetchFailed e None \<Rightarrow> (Inl e, s1)
           | FetchFailed e (Some part) \<Rightarrow>
               if can_create s path then (Inl e, s1\<lparr>files := (files s1)(path \<mapsto> part)\<rparr>)
               else (Inl (PyExc ''FileNotFoundError'' path), s1))
     else (Inr path, s))"

definition download_model_files :: "cli_env \<Rightarrow> string \<Rightarrow> (string \<times> string) cli" where
  "download_model_files env cache_dir =
     (let model_path = path_join cache_dir ''kokoro-v1.0.onnx'';
          voices_path = path_join cache_dir ''voices-v1.0.bin''
      in bind_c (download_file env model_url model_path) (\<lambda>m.
         bind_c (download_file env voices_url voices_path) (\<lambda>v.
           return_c (m, v))))"

subsection \<open>\<open>text_to_speech\<close>\<close>

definition Kokoro_new :: "cli_env \<Rightarrow> string \<Rightarrow> string \<Rightarrow> unit cli" where
  "Kokoro_new env model_path voices_path = (\<lambda>s.
     let s1 = s\<lparr>events := events s @ [KokoroInit model_path voices_path]\<rparr>
     in case Kokoro env model_path voices_path of
          Some e \<Rightarrow> (Inl e, s1)
        | None \<Rightarrow> (Inr (), s1))"

definition create :: "cli_env \<Rightarrow> string \<Rightarrow> string \<Rightarrow> real \<Rightarrow> string \<Rightarrow> (audio \<times> nat) cli" where
  "create env text v sp l = (\<lambda>s.
     (kokoro_create env text v sp l, s\<lparr>events := events s @ [KokoroCreate text v sp l]\<rparr>))"

definition write_file :: "cli_env \<Rightarrow> string \<Rightarrow> audio \<Rightarrow> nat \<Rightarrow> unit cli" where
  "write_file env path a rate = (\<lambda>s.
     let s1 = s\<lparr>events := events s @ [SfWrite path]\<rparr>
     in case sf_write env path a rate of
          Inl e \<Rightarrow> (Inl e, s1)
        | Inr content \<Rightarrow> (Inr (), s1\<lparr>files := (files s1)(path \<mapsto> content)\<rparr>))"

definition play :: "cli_env \<Rightarrow> audio \<Rightarrow> nat \<Rightarrow> int option \<Rightarrow> unit cli" where
  "play env a rate dev = (\<lambda>s.
     let s1 = s\<lparr>events := events s @ [SdPlay dev]\<rparr>
     in case sd_play env a rate dev of
          Some e \<Rightarrow> (Inl e, s1)
        | None \<Rightarrow> (Inr (), s1\<lparr>events := events s1 @ [SdWait]\<rparr>))"

text \<open>
  \<open>if output_file:\<close> is false for \<open>None\<close> and for the empty string;
  the parameter \<open>debug\<close> is not used.
\<close>

definition text_to_speech ::
  "cli_env \<Rightarrow> string \<Rightarrow> string option \<Rightarrow> int option \<Rightarrow> string \<Rightarrow> real \<Rightarrow> string \<Rightarrow> bool \<Rightarrow> unit cli" where
  "text_to_speech env text output_file dev v sp l dbg =
     bind_c (get_cache_dirs env) (\<lambda>(cache_dir, data_dir).
     bind_c (download_model_files env cache_dir) (\<lambda>(model_path, voices_path).
     bind_c (Kokoro_new env model_path voices_path) (\<lambda>_.
     bind_c (emit (LogInfoGenerating v sp l)) (\<lambda>_.
     bind_c (create env text v sp l) (\<lambda>(a, sample_rate).
       case output_file of
         Some path \<Rightarrow>
           if path \<noteq> [] then
             bind_c (write_file env path a sample_rate) (\<lambda>_.
               emit (Stdout (''Audio saved to '' @ path)))
           else if dev \<noteq> None then play env a sample_rate dev
           else play env a sample_rate None
       | None \<Rightarrow>
           if dev \<noteq> None then play env a sample_rate dev
           else play env a sample_rate None)))))"

subsection \<open>\<open>main\<close>, after \<open>parser.parse_args()\<close>\<close>

record args =
  input :: "string option"
  output_arg :: "string option"
  device :: "int option"
  list_devices :: bool
  cache_dir :: "string option"
  data_dir :: "string option"
  voice_arg :: string
  speed :: real
  lang :: string
  debug :: bool
  server :: bool
  host :: string
  port :: int

text \<open>
  \<open>run_server\<close> builds the application, prints its two lines and hands over to
  \<open>uvicorn.run\<close>, which returns when the server stops.
\<close>

definition run_server :: "string \<Rightarrow> int \<Rightarrow> unit cli" where
  "run_server h p = bind_c (emit (ServerBanner h p)) (\<lambda>_. emit (UvicornRun h p))"

text \<open>
  Lines 179 to 188: the text comes from a file, from the argument or from stdin.
  \<open>open\<close>, \<open>f.read()\<close> and \<open>sys.stdin.read()\<close> may raise, and they stand outside
  the \<open>try\<close> of lines 194 to 206. The argument itself is not stripped.
\<close>

definition read_stdin :: "cli_env \<Rightarrow> py_exception + string" where
  "read_stdin env = (case stdin_read env of Inl e \<Rightarrow> Inl e | Inr t \<Rightarrow> Inr (strip t))"

definition input_text :: "cli_env \<Rightarrow> args \<Rightarrow> cli_state \<Rightarrow> py_exception + string" where
  "input_text env a s =
     (case input a of
        None \<Rightarrow> read_stdin env
      | Some p \<Rightarrow>
          if p = [] then read_stdin env
          else (case files s p of
                  Some content \<Rightarrow>
                    (case read_error env p of
                       Some e \<Rightarrow> Inl e
                     | None \<Rightarrow> Inr (strip content))
                | None \<Rightarrow> Inr p))"

text \<open>
  The result of \<open>main\<close> is the exit status of the process: \<open>sys.exit(1)\<close> gives 1,
  returning gives 0, an exception that nothing catches gives 1 after its traceback.
\<close>

definition main :: "cli_env \<Rightarrow> args \<Rightarrow> cli_state \<Rightarrow> nat \<times> cli_state" where
  "main env a s0 =
     (let s = s0\<lparr>events := events s0 @ [BasicConfig (debug a)]\<rparr> in
      if server a then
        (case run_server (host a) (port a) s of
           (Inl e, s') \<Rightarrow> (1, s'\<lparr>events := events s' @ [Traceback e]\<rparr>)
         | (Inr _, s') \<Rightarrow> (0, s'))
      else if list_devices a then
        (let s1 = s\<lparr>events := events s
                     @ [Stdout (CHR 0x0A # ''Available audio devices:''), QueryDevices]\<rparr>
         in case query_devices env of
              Inl e \<Rightarrow> (1, s1\<lparr>events := events s1 @ [Traceback e]\<rparr>)
            | Inr d \<Rightarrow> (0, s1\<lparr>events := events s1 @ [Stdout d]\<rparr>))
      else
        (case input_text env a s of
           Inl e \<Rightarrow> (1, s\<lparr>events := events s @ [Traceback e]\<rparr>)
         | Inr text \<Rightarrow>
             if text = [] then
               (1, s\<lparr>events := events s @ [Stderr ''Error: No input text provided'']\<rparr>)
             else
               (case text_to_speech env text (output_arg a) (device a) (voice_arg a) (speed a)
                       (lang a) (debug a) s of
                  (Inl e, s') \<Rightarrow>
                    (1, s'\<lparr>events := events s' @ [LogError (''Error: '' @ exc_str e)]\<rparr>)
                | (Inr _, s') \<Rightarrow> (0, s'))))"

section \<open>Auxiliary definitions for the statements\<close>

subsection \<open>The bytes of a finished WAV file\<close>

text \<open>
  The header that a mono, 16-bit, 24000 Hz file with \<open>d\<close> bytes of data carries, and the
  states of the writer between the calls of lines 95 to 98.
\<close>

definition riff_header :: "nat \<Rightarrow> byte list" where
  "riff_header d = ascii ''RIFF'' @ le_bytes 4 (36 + d) @ ascii ''WAVE'' @ ascii ''fmt ''
     @ le_bytes 4 16 @ le_bytes 2 1 @ le_bytes 2 1 @ le_bytes 4 24000 @ le_bytes 4 48000
     @ le_bytes 2 2 @ le_bytes 2 16 @ ascii ''data'' @ le_bytes 4 d"

definition configured :: wave_write where
  "configured = (initfp bytesio_new)\<lparr>nchannels := 1, sampwidth := 2, framerate := 24000\<rparr>"

definition after_write :: "nat \<Rightarrow> byte list \<Rightarrow> wave_write" where
  "after_write d pcm =
     configured\<lparr>wfile := \<lparr>buf = riff_header d @ pcm, pos = 44 + length pcm\<rparr>,
            nframes := length pcm div 2, datalength := d,
            form_length_pos := 4, data_length_pos := 40, headerwritten := True,
            datawritten := length pcm, nframeswritten := length pcm div 2\<rparr>"

subsection \<open>Counting effects\<close>

fun is_LoadKModel :: "srv_event \<Rightarrow> bool" where
  "is_LoadKModel (LoadKModel p) = True"
| "is_LoadKModel ev = False"

definition kmodel_loads :: "srv_event list \<Rightarrow> nat" where
  "kmodel_loads tr = length (filter is_LoadKModel tr)"

fun is_KokoroInit :: "cli_event \<Rightarrow> bool" where
  "is_KokoroInit (KokoroInit m v) = True"
| "is_KokoroInit ev = False"

definition kokoro_inits :: "cli_event list \<Rightarrow> nat" where
  "kokoro_inits evs = length (filter is_KokoroInit evs)"

definition downloads_of :: "string \<Rightarrow> cli_event list \<Rightarrow> nat" where
  "downloads_of p evs = length (filter (\<lambda>ev. ev = Downloaded p) evs)"

definition requests_of :: "string \<Rightarrow> string \<Rightarrow> cli_event list \<Rightarrow> nat" where
  "requests_of u p evs = length (filter (\<lambda>ev. ev = UrlRetrieve u p) evs)"

text \<open>
  The effects that only the synthesis path has: everything \<open>text_to_speech\<close> does
  to the file system, the network, the engine and the audio device.
\<close>

fun synthesis_effect :: "cli_event \<Rightarrow> bool" where
  "synthesis_effect (MakeDirs p) = True"
| "synthesis_effect (LogInfoDownloading n) = True"
| "synthesis_effect (UrlRetrieve u p) = True"
| "synthesis_effect (Downloaded p) = True"
| "synthesis_effect (KokoroInit m v) = True"
| "synthesis_effect (LogInfoGenerating v sp l) = True"
| "synthesis_effect (KokoroCreate t v sp l) = True"
| "synthesis_effect (SfWrite p) = True"
| "synthesis_effect (SdPlay d) = True"
| "synthesis_effect SdWait = True"
| "synthesis_effect ev = False"

text \<open>The events that a step has added to the ones before it.\<close>

definition new_events :: "cli_state \<Rightarrow> cli_state \<Rightarrow> cli_event list" where
  "new_events s s' = drop (length (events s)) (events s')"

subsection \<open>Concrete environments\<close>

text \<open>
  A server whose voice directory holds \<open>af_sky.pt\<close> and a file that is no voice, and
  whose \<open>KPipeline\<close> knows the language code \<open>a\<close> only.
\<close>

definition ex_srv_env :: srv_env where
  "ex_srv_env = \<lparr>core_model_exists = True, voice_dir = Some [''af_sky.pt'', ''README.md''],
     kpipeline_init = (\<lambda>lc. if lc = ''a'' then None else Some (PyExc ''AssertionError'' lc)),
     kpipeline_call = (\<lambda>p t v. Inr [[1, 2, 3, 4]]),
     sd_play_live = (\<lambda>a. None)\<rparr>"

definition ex_server :: server_state where
  "ex_server = \<lparr>settings = Settings,
     pipeline = \<lparr>pl_model = KModel CORE_MODEL_PATH, pl_lang_code = ''a''\<rparr>,
     core_model = KModel CORE_MODEL_PATH,
     trace = [LoadKModel CORE_MODEL_PATH, NewKPipeline (KModel CORE_MODEL_PATH) ''a'']\<rparr>"

text \<open>The same server with a pipeline that yields one frame of \<open>2 ^ 32 - 36\<close> bytes.\<close>

definition long_frame :: audio_frame where
  "long_frame = replicate 4294967260 0"

definition long_srv_env :: srv_env where
  "long_srv_env = ex_srv_env\<lparr>kpipeline_call := (\<lambda>p t v. Inr [long_frame])\<rparr>"

text \<open>
  A machine with both artifacts in the cache, an engine that always answers, files that
  can be read and nothing on standard input; the same machine with the cache directory
  there and still empty; a file whose bytes do not decode.
\<close>

definition ex_cli_env :: cli_env where
  "ex_cli_env = \<lparr>user_cache_dir = ''/c'', user_data_dir = ''/d'',
     urlretrieve = (\<lambda>u. Fetched ''bytes''),
     Kokoro = (\<lambda>m v. None),
     kokoro_create = (\<lambda>t v sp l. Inr ([0, 1], 24000)),
     sf_write = (\<lambda>p a r. Inr ''RIFF''),
     sd_play = (\<lambda>a r d. None),
     query_devices = Inr ''0 default'',
     read_error = (\<lambda>p. None),
     stdin_read = Inr []\<rparr>"

definition ex_cli_state :: cli_state where
  "ex_cli_state = \<lparr>files = [''/c/kokoro-v1.0.onnx'' \<mapsto> ''m'', ''/c/voices-v1.0.bin'' \<mapsto> ''v''],
     dirs = {''/c'', ''/d''}, events = []\<rparr>"

definition cold_cli_state :: cli_state where
  "cold_cli_state = \<lparr>files = Map.empty, dirs = {''/c''}, events = []\<rparr>"



definition empty_cli_state :: cli_state where
  "empty_cli_state = \<lparr>files = Map.empty, dirs = {}, events = []\<rparr>"

definition ex_args :: args where
  "ex_args = \<lparr>input = None, output_arg = None, device = None, list_devices = False,
     cache_dir = None, data_dir = None, voice_arg = ''af_sarah'', speed = 1, lang = ''en-us'',
     debug = False, server = False, host = ''127.0.0.1'', port = 8000\<rparr>"

subsection \<open>What a synthesis request asks for\<close>

text \<open>Lines 81 and 82: the stripped text and the voice that \<open>synthesize_file\<close> uses.\<close>

definition text_of :: "synth_request \<Rightarrow> string" where
  "text_of d = strip (case req_text d of None \<Rightarrow> [] | Some t \<Rightarrow> t)"

definition voice_of :: "server_state \<Rightarrow> synth_request \<Rightarrow> string" where
  "voice_of s d = (case req_voice d of None \<Rightarrow> voice (settings s) | Some v \<Rightarrow> v)"

subsection \<open>Downloads that may still happen\<close>

text \<open>
  For every path, the downloads completed so far plus one if the path is still absent
  never grows: a download of a file happens only while the file is absent, and makes it
  present.
\<close>

definition pending :: "string \<Rightarrow> cli_state \<Rightarrow> nat" where
  "pending q s = downloads_of q (events s) + (if path_exists s q then 0 else 1)"

section \<open>The WAV writer\<close>

lemma length_le_bytes [simp]: "length (le_bytes k n) = k"
  by (induction k arbitrary: n) auto

lemma length_ascii [simp]: "length (ascii s) = length s"
  by (simp add: ascii_def)

lemma le_nat_le_bytes: "n < 256 ^ k \<Longrightarrow> le_nat (le_bytes k n) = n"
proof (induction k arbitrary: n)
  case 0
  then show ?case by simp
next
  case (Suc k)
  have "n div 256 < 256 ^ k"
    using Suc.prems by (simp add: less_mult_imp_div_less mult.commute)
  then have "le_nat (le_bytes k (n div 256)) = n div 256"
    by (rule Suc.IH)
  moreover have "unat (word_of_nat (n mod 256) :: byte) = n mod 256"
    by (simp add: unat_of_nat)
  ultimately show ?case by simp
qed

lemma pack_L_ok: "n < 2 ^ 32 \<Longrightarrow> pack_L n = Inr (le_bytes 4 n)"
  by (simp add: pack_L_def)

lemma bind_e_Inr [simp]: "bind_e (Inr x) f = f x"
  by (simp add: bind_e_def)

lemma bind_e_Inl [simp]: "bind_e (Inl e) f = Inl e"
  by (simp add: bind_e_def)

lemma length_riff_header [simp]: "length (riff_header d) = 44"
  by (simp add: riff_header_def)

lemma configure:
  "bind_e (setnchannels 1 (initfp bytesio_new)) (\<lambda>w1.
     bind_e (setsampwidth 2 w1) (\<lambda>w2. bind_e (setframerate 24000 w2) f)) = f configured"
  by (simp add: setnchannels_def setsampwidth_def setframerate_def initfp_def configured_def)

lemma write_header_configured:
  assumes "36 + 2 * (l div 2) < 2 ^ 32"
  shows "write_header l configured =
     Inr (configured\<lparr>wfile := \<lparr>buf = riff_header (2 * (l div 2)), pos = 44\<rparr>,
            nframes := l div 2, datalength := 2 * (l div 2),
            form_length_pos := 4, data_length_pos := 40, headerwritten := True\<rparr>)"
proof -
  have a: "pack_L (36 + 2 * (l div 2)) = Inr (le_bytes 4 (36 + 2 * (l div 2)))"
    using assms by (rule pack_L_ok)
  have b: "pack_L (2 * (l div 2)) = Inr (le_bytes 4 (2 * (l div 2)))"
    using assms by (simp add: pack_L_ok)
  have c: "pack_L 16 = Inr (le_bytes 4 16)" "pack_L 24000 = Inr (le_bytes 4 24000)"
    "pack_L 48000 = Inr (le_bytes 4 48000)"
    by (simp_all add: pack_L_def)
  have d: "pack_H (Suc 0) = Inr (le_bytes 2 (Suc 0))" "pack_H 2 = Inr (le_bytes 2 2)"
    "pack_H 16 = Inr (le_bytes 2 16)"
    by (simp_all add: pack_H_def)
  show ?thesis
    by (simp add: write_header_def configured_def initfp_def bytesio_new_def Let_def
        bio_write_def a b c d riff_header_def mult.commute)
qed

lemma writeframesraw_configured:
  assumes "36 + 2 * (length pcm div 2) < 2 ^ 32"
  shows "writeframesraw pcm configured = Inr (after_write (2 * (length pcm div 2)) pcm)"
proof -
  have "ensure_header_written (length pcm) configured = write_header (length pcm) configured"
    by (simp add: ensure_header_written_def configured_def initfp_def)
  then have e: "ensure_header_written (length pcm) configured =
     Inr (configured\<lparr>wfile := \<lparr>buf = riff_header (2 * (length pcm div 2)), pos = 44\<rparr>,
            nframes := length pcm div 2, datalength := 2 * (length pcm div 2),
            form_length_pos := 4, data_length_pos := 40, headerwritten := True\<rparr>)"
    by (simp only: write_header_configured [OF assms])
  show ?thesis
    unfolding writeframesraw_def e after_write_def
    by (simp add: Let_def bio_write_def configured_def initfp_def)
qed

lemma patch_bytes:
  "bio_write (le_bytes 4 b) (bio_seek 40 (bio_write (le_bytes 4 (36 + b))
      (bio_seek 4 \<lparr>buf = riff_header d @ pcm, pos = p\<rparr>)))
   = \<lparr>buf = riff_header b @ pcm, pos = 44\<rparr>"
  by (simp add: bio_write_def bio_seek_def riff_header_def)

lemma patchheader_after_write:
  assumes "36 + length pcm < 2 ^ 32"
  shows "patchheader (after_write d pcm) = Inr (after_write (length pcm) pcm)"
proof (cases "length pcm = d")
  case True
  then show ?thesis by (simp add: patchheader_def after_write_def)
next
  case False
  have a: "pack_L (36 + length pcm) = Inr (le_bytes 4 (36 + length pcm))"
    using assms by (rule pack_L_ok)
  have b: "pack_L (length pcm) = Inr (le_bytes 4 (length pcm))"
    using assms by (simp add: pack_L_ok)
  have "patchheader (after_write d pcm) =
     Inr ((after_write d pcm)\<lparr>wfile := bio_seek (44 + length pcm)
        (bio_write (le_bytes 4 (length pcm)) (bio_seek 40
          (bio_write (le_bytes 4 (36 + length pcm))
            (bio_seek 4 \<lparr>buf = riff_header d @ pcm, pos = 44 + length pcm\<rparr>)))),
        datalength := length pcm\<rparr>)"
    using False by (simp add: patchheader_def after_write_def a b Let_def)
  then show ?thesis
    by (simp only: patch_bytes) (simp add: after_write_def bio_seek_def)
qed

lemma writeframes_configured:
  assumes "36 + length pcm < 2 ^ 32"
  shows "writeframes pcm configured = Inr (after_write (length pcm) pcm)"
proof -
  have le: "36 + 2 * (length pcm div 2) < 2 ^ 32"
    using assms by (simp add: less_le_trans)
  have w: "writeframesraw pcm configured = Inr (after_write (2 * (length pcm div 2)) pcm)"
    by (rule writeframesraw_configured [OF le])
  show ?thesis
  proof (cases "2 * (length pcm div 2) = length pcm")
    case True
    then show ?thesis by (simp add: writeframes_def w) (simp add: after_write_def)
  next
    case False
    then have "datalength (after_write (2 * (length pcm div 2)) pcm)
        \<noteq> datawritten (after_write (2 * (length pcm div 2)) pcm)"
      by (simp add: after_write_def)
    then show ?thesis
      by (simp add: writeframes_def w patchheader_after_write [OF assms])
  qed
qed

lemma wave_close_after_write:
  "wave_close (after_write (length pcm) pcm) = Inr (after_write (length pcm) pcm)"
  by (simp add: wave_close_def ensure_header_written_def after_write_def)

text \<open>
  The writer returns the header followed by the data as long as the sizes fit the
  32-bit fields of the header, and raises \<open>struct.error\<close> beyond.
\<close>

lemma write_wav_ok:
  assumes "36 + length pcm < 2 ^ 32"
  shows "write_wav pcm = Inr (riff_header (length pcm) @ pcm)"
  unfolding write_wav_def configure
  by (simp add: writeframes_configured [OF assms] wave_close_after_write)
     (simp add: after_write_def bio_seek_def bio_read_def)

lemma write_wav_overflow:
  assumes "\<not> 36 + length pcm < 2 ^ 32"
  shows "write_wav pcm = Inl struct_error"
proof -
  have p: "(2::nat) ^ 32 = 4294967296" by simp
  have "\<not> 36 + 2 * (length pcm div 2) < (2::nat) ^ 32"
    using assms unfolding p by presburger
  then have "write_header (length pcm) configured = Inl struct_error"
    by (simp add: write_header_def configured_def initfp_def pack_L_def Let_def mult.commute)
  then have "writeframes pcm configured = Inl struct_error"
    by (simp add: writeframes_def writeframesraw_def ensure_header_written_def)
       (simp add: configured_def initfp_def)
  then show ?thesis
    unfolding write_wav_def configure by simp
qed

lemma write_wav_Inr_iff:
  "write_wav pcm = Inr out \<longleftrightarrow> 36 + length pcm < 2 ^ 32 \<and> out = riff_header (length pcm) @ pcm"
proof (cases "36 + length pcm < 2 ^ 32")
  case True
  then show ?thesis by (auto simp: write_wav_ok)
next
  case False
  then show ?thesis by (simp add: write_wav_overflow)
qed

lemma parse_riff_header:
  assumes "36 + d < 2 ^ 32"
  shows "parse_header (riff_header d @ pcm) =
     \<lparr>ChunkID = ascii ''RIFF'', ChunkSize = 36 + d, Format = ascii ''WAVE'',
      Subchunk1ID = ascii ''fmt '', Subchunk1Size = 16, AudioFormat = 1, NumChannels = 1,
      SampleRate = 24000, ByteRate = 48000, BlockAlign = 2, BitsPerSample = 16,
      Subchunk2ID = ascii ''data'', Subchunk2Size = d\<rparr>"
proof -
  have big: "le_nat (le_bytes 4 (36 + d)) = 36 + d" "le_nat (le_bytes 4 d) = d"
    using assms by (simp_all add: le_nat_le_bytes)
  have const4: "le_nat (le_bytes 4 16) = 16" "le_nat (le_bytes 4 24000) = 24000"
    "le_nat (le_bytes 4 48000) = 48000"
    by (simp_all add: le_nat_le_bytes)
  have const2: "le_nat (le_bytes 2 (Suc 0)) = Suc 0" "le_nat (le_bytes 2 2) = 2"
    "le_nat (le_bytes 2 16) = 16"
    by (rule le_nat_le_bytes, simp)+
  show ?thesis
    unfolding parse_header_def field_def riff_header_def
    by (simp add: big const4 const2)
qed

text \<open>
  C1. Every non-empty PCM byte string that the WAV path of \<open>/synthesize_file\<close> writes
  comes out as a 44-byte canonical RIFF header followed by the data: the little-endian
  fields read ChunkSize = 36 + dataSize and Subchunk2Size = dataSize for
  dataSize = len(pcm), NumChannels = 1, BitsPerSample = 16, SampleRate = 24000 and
  ByteRate = SampleRate * NumChannels * BitsPerSample / 8. The writer yields an output
  for every PCM string whose size fits the 32-bit fields.
\<close>

theorem wav_header_canonical:
  assumes "pcm \<noteq> []"
  shows "(36 + length pcm < 2 ^ 32 \<longrightarrow> (\<exists>out. write_wav pcm = Inr out)) \<and>
    (\<forall>out. write_wav pcm = Inr out \<longrightarrow>
       length out = 44 + length pcm \<and> drop 44 out = pcm \<and>
       ChunkID (parse_header out) = ascii ''RIFF'' \<and>
       Format (parse_header out) = ascii ''WAVE'' \<and>
       Subchunk1ID (parse_header out) = ascii ''fmt '' \<and>
       Subchunk2ID (parse_header out) = ascii ''data'' \<and>
       Subchunk1Size (parse_header out) = 16 \<and>
       AudioFormat (parse_header out) = 1 \<and>
       ChunkSize (parse_header out) = 36 + length pcm \<and>
       Subchunk2Size (parse_header out) = length pcm \<and>
       NumChannels (parse_header out) = 1 \<and>
       BitsPerSample (parse_header out) = 16 \<and>
       SampleRate (parse_header out) = 24000 \<and>
       ByteRate (parse_header out) =
         SampleRate (parse_header out) * NumChannels (parse_header out)
           * BitsPerSample (parse_header out) div 8)"
proof (intro conjI allI impI)
  assume "36 + length pcm < 2 ^ 32"
  then show "\<exists>out. write_wav pcm = Inr out"
    by (simp add: write_wav_ok)
next
  fix out
  assume "write_wav pcm = Inr out"
  then have fits: "36 + length pcm < 2 ^ 32" and out: "out = riff_header (length pcm) @ pcm"
    by (simp_all add: write_wav_Inr_iff)
  note h = parse_riff_header [OF fits, of pcm]
  show "length out = 44 + length pcm" by (simp add: out)
  show "drop 44 out = pcm" by (simp add: out)
  show "ChunkID (parse_header out) = ascii ''RIFF''" by (simp add: out h)
  show "Format (parse_header out) = ascii ''WAVE''" by (simp add: out h)
  show "Subchunk1ID (parse_header out) = ascii ''fmt ''" by (simp add: out h)
  show "Subchunk2ID (parse_header out) = ascii ''data''" by (simp add: out h)
  show "Subchunk1Size (parse_header out) = 16" by (simp add: out h)
  show "AudioFormat (parse_header out) = 1" by (simp add: out h)
  show "ChunkSize (parse_header out) = 36 + length pcm" by (simp add: out h)
  show "Subchunk2Size (parse_header out) = length pcm" by (simp add: out h)
  show "NumChannels (parse_header out) = 1" by (simp add: out h)
  show "BitsPerSample (parse_header out) = 16" by (simp add: out h)
  show "SampleRate (parse_header out) = 24000" by (simp add: out h)
  show "ByteRate (parse_header out) =
      SampleRate (parse_header out) * NumChannels (parse_header out)
        * BitsPerSample (parse_header out) div 8"
    by (simp add: out h)
qed

theorem wav_header_canonical_witness:
  "\<exists>out. write_wav [1, 2, 3] = Inr out \<and> length out = 47 \<and>
     ChunkSize (parse_header out) = 39 \<and> Subchunk2Size (parse_header out) = 3 \<and>
     ByteRate (parse_header out) = 48000"
proof -
  have ne: "[1, 2, 3 :: byte] \<noteq> []" by simp
  have fits: "36 + length [1, 2, 3 :: byte] < (2::nat) ^ 32" by simp
  from wav_header_canonical [OF ne] fits obtain out where o: "write_wav [1, 2, 3] = Inr out"
    by blast
  with wav_header_canonical [OF ne] show ?thesis
    by simp
qed

section \<open>The settings of the server\<close>

lemma update_settings_rejects:
  "voice new \<notin> set (get_available_voices env) \<Longrightarrow>
   update_settings env new s =
     (Inl (HTTPException 400 (VoiceNotFound (voice new) (get_available_voices env))), s)"
  by (simp add: update_settings_def)

lemma update_settings_accepts:
  assumes "voice new \<in> set (get_available_voices env)"
  shows "update_settings env new s =
     (case kpipeline_init env (lang_code new) of
        Some e \<Rightarrow>
          (Inl (Unhandled e),
           s\<lparr>settings := new,
             trace := trace s @ [NewKPipeline (core_model s) (lang_code new)]\<rparr>)
      | None \<Rightarrow>
          (Inr (SettingsOut (lang_code new) (voice new) (get_available_voices env)),
           s\<lparr>settings := new,
             pipeline := \<lparr>pl_model = core_model s, pl_lang_code = lang_code new\<rparr>,
             trace := trace s @ [NewKPipeline (core_model s) (lang_code new)]\<rparr>))"
  using assms by (simp add: update_settings_def create_pipeline_def Let_def split: option.splits)

lemma voices_ex_srv_env: "get_available_voices ex_srv_env = [''af_sky.pt'']"
  by (simp add: get_available_voices_def ex_srv_env_def endswith_def)

lemma startup_ex_srv_env: "startup ex_srv_env = Inr ex_server"
  by (simp add: startup_def ex_srv_env_def ex_server_def create_pipeline_def Settings_def Let_def)

text \<open>
  C2. A \<open>POST /settings\<close> whose voice is not among \<open>get_available_voices()\<close> is answered
  with status 400 and changes neither the settings nor the pipeline (nothing of the state
  at all); after an update answered with 200 the settings are the requested ones.
\<close>

theorem update_settings_validates_voice:
  "(voice new \<notin> set (get_available_voices env) \<longrightarrow>
      status_code (fst (update_settings env new s)) = 400 \<and>
      settings (snd (update_settings env new s)) = settings s \<and>
      pipeline (snd (update_settings env new s)) = pipeline s \<and>
      snd (update_settings env new s) = s) \<and>
   (status_code (fst (update_settings env new s)) = 200 \<longrightarrow>
      settings (snd (update_settings env new s)) = new)"
proof (cases "voice new \<in> set (get_available_voices env)")
  case True
  then show ?thesis
    by (simp add: update_settings_accepts split: option.splits)
next
  case False
  then show ?thesis
    by (simp add: update_settings_rejects)
qed

theorem update_settings_validates_voice_witness:
  "voice \<lparr>lang_code = ''a'', voice = ''af_sky''\<rparr> \<notin> set (get_available_voices ex_srv_env) \<and>
   status_code (fst (update_settings ex_srv_env \<lparr>lang_code = ''a'', voice = ''af_sky''\<rparr> ex_server)) = 400 \<and>
   snd (update_settings ex_srv_env \<lparr>lang_code = ''a'', voice = ''af_sky''\<rparr> ex_server) = ex_server \<and>
   status_code (fst (update_settings ex_srv_env \<lparr>lang_code = ''a'', voice = ''af_sky.pt''\<rparr> ex_server)) = 200 \<and>
   settings (snd (update_settings ex_srv_env \<lparr>lang_code = ''a'', voice = ''af_sky.pt''\<rparr> ex_server))
     = \<lparr>lang_code = ''a'', voice = ''af_sky.pt''\<rparr>"
proof -
  have no: "voice \<lparr>lang_code = ''a'', voice = ''af_sky''\<rparr> \<notin> set (get_available_voices ex_srv_env)"
    by (simp add: voices_ex_srv_env)
  have yes: "voice \<lparr>lang_code = ''a'', voice = ''af_sky.pt''\<rparr> \<in> set (get_available_voices ex_srv_env)"
    by (simp add: voices_ex_srv_env)
  have ok: "status_code (fst (update_settings ex_srv_env \<lparr>lang_code = ''a'', voice = ''af_sky.pt''\<rparr> ex_server)) = 200"
    by (simp add: update_settings_accepts [OF yes]) (simp add: ex_srv_env_def)
  show ?thesis
    using no ok
      update_settings_validates_voice [of "\<lparr>lang_code = ''a'', voice = ''af_sky''\<rparr>" ex_srv_env ex_server]
      update_settings_validates_voice [of "\<lparr>lang_code = ''a'', voice = ''af_sky.pt''\<rparr>" ex_srv_env ex_server]
    by blast
qed

text \<open>
  C10. Without a voice directory \<open>get_available_voices()\<close> is the empty list, and every
  \<open>POST /settings\<close>, whatever voice and language code it asks for, is answered with
  status 400 and leaves the settings as they were.
\<close>

theorem no_voice_dir_rejects_every_update:
  assumes "voice_dir env = None"
  shows "get_available_voices env = [] \<and>
    status_code (fst (update_settings env new s)) = 400 \<and>
    settings (snd (update_settings env new s)) = settings s \<and>
    snd (update_settings env new s) = s"
proof -
  have e: "get_available_voices env = []"
    using assms by (simp add: get_available_voices_def)
  then have "voice new \<notin> set (get_available_voices env)"
    by simp
  then show ?thesis
    using e by (simp add: update_settings_rejects)
qed

theorem no_voice_dir_rejects_every_update_witness:
  "voice_dir (ex_srv_env\<lparr>voice_dir := None\<rparr>) = None \<and>
   get_available_voices (ex_srv_env\<lparr>voice_dir := None\<rparr>) = [] \<and>
   status_code (fst (update_settings (ex_srv_env\<lparr>voice_dir := None\<rparr>)
      \<lparr>lang_code = ''b'', voice = ''af_sky.pt''\<rparr> ex_server)) = 400 \<and>
   settings (snd (update_settings (ex_srv_env\<lparr>voice_dir := None\<rparr>)
      \<lparr>lang_code = ''b'', voice = ''af_sky.pt''\<rparr> ex_server)) = Settings"
proof -
  have n: "voice_dir (ex_srv_env\<lparr>voice_dir := None\<rparr>) = None"
    by simp
  show ?thesis
    using n no_voice_dir_rejects_every_update [OF n, of "\<lparr>lang_code = ''b'', voice = ''af_sky.pt''\<rparr>" ex_server]
    by (simp add: ex_server_def)
qed

text \<open>
  The pipeline follows the settings when the update succeeds, and along every run of
  the server as long as the constructor of the pipeline never raises.
\<close>

lemma update_settings_success_coherent:
  assumes "fst (update_settings env new s) = Inr p"
  shows "pl_lang_code (pipeline (snd (update_settings env new s)))
    = lang_code (settings (snd (update_settings env new s)))"
proof (cases "voice new \<in> set (get_available_voices env)")
  case True
  with assms show ?thesis
    by (simp add: update_settings_accepts split: option.splits)
next
  case False
  with assms show ?thesis
    by (simp add: update_settings_rejects)
qed

lemma synthesize_file_keeps:
  "settings (snd (synthesize_file env d s)) = settings s \<and>
   pipeline (snd (synthesize_file env d s)) = pipeline s \<and>
   core_model (snd (synthesize_file env d s)) = core_model s \<and>
   kmodel_loads (trace (snd (synthesize_file env d s))) = kmodel_loads (trace s)"
  by (simp add: synthesize_file_def Let_def kmodel_loads_def split: sum.splits)

lemma play_frames_loads:
  "kmodel_loads (snd (play_frames env fs tr)) = kmodel_loads tr"
  by (induction fs arbitrary: tr) (auto simp: kmodel_loads_def split: option.splits)

lemma play_frames_loads_eq:
  "play_frames env fs tr0 = (r, tr) \<Longrightarrow> kmodel_loads tr = kmodel_loads tr0"
  using play_frames_loads [of env fs tr0] by simp

lemma kmodel_loads_call [simp]: "kmodel_loads (tr @ [CallPipeline p t v]) = kmodel_loads tr"
  by (simp add: kmodel_loads_def)

lemma play_live_keeps:
  "settings (snd (play_live env d s)) = settings s \<and>
   pipeline (snd (play_live env d s)) = pipeline s \<and>
   core_model (snd (play_live env d s)) = core_model s \<and>
   kmodel_loads (trace (snd (play_live env d s))) = kmodel_loads (trace s)"
  by (auto simp: play_live_def Let_def split: sum.splits prod.splits option.splits
      dest!: play_frames_loads_eq)

lemma update_settings_keeps:
  "core_model (snd (update_settings env new s)) = core_model s \<and>
   kmodel_loads (trace (snd (update_settings env new s))) = kmodel_loads (trace s) \<and>
   (pl_model (pipeline s) = core_model s \<longrightarrow>
      pl_model (pipeline (snd (update_settings env new s))) = core_model s)"
proof (cases "voice new \<in> set (get_available_voices env)")
  case True
  then show ?thesis
    by (simp add: update_settings_accepts kmodel_loads_def split: option.splits)
next
  case False
  then show ?thesis
    by (simp add: update_settings_rejects)
qed

lemma handle_keeps:
  "core_model (snd (handle env r s)) = core_model s \<and>
   kmodel_loads (trace (snd (handle env r s))) = kmodel_loads (trace s) \<and>
   (pl_model (pipeline s) = core_model s \<longrightarrow>
      pl_model (pipeline (snd (handle env r s))) = core_model s)"
proof (cases r)
  case GET_settings
  then show ?thesis by (simp add: get_settings_def)
next
  case (POST_settings new)
  then show ?thesis using update_settings_keeps [of env new s] by simp
next
  case (POST_synthesize_file d)
  then show ?thesis using synthesize_file_keeps [of env d s] by simp
next
  case (POST_play_live d)
  then show ?thesis using play_live_keeps [of env d s] by simp
qed

lemma serve_keeps:
  "pl_model (pipeline s) = core_model s \<Longrightarrow>
   core_model (serve rs s) = core_model s \<and>
   kmodel_loads (trace (serve rs s)) = kmodel_loads (trace s) \<and>
   pl_model (pipeline (serve rs s)) = core_model s"
proof (induction rs arbitrary: s)
  case Nil
  then show ?case by simp
next
  case (Cons er rs)
  obtain env r where er: "er = (env, r)" by (cases er)
  let ?s = "snd (handle env r s)"
  from handle_keeps [of env r s] Cons.prems
  have k: "core_model ?s = core_model s" "kmodel_loads (trace ?s) = kmodel_loads (trace s)"
    "pl_model (pipeline ?s) = core_model ?s"
    by simp_all
  from Cons.IH [OF k(3)] k show ?case
    by (simp add: er)
qed

lemma startup_state:
  assumes "startup env = Inr s"
  shows "s = \<lparr>settings = Settings,
     pipeline = \<lparr>pl_model = KModel CORE_MODEL_PATH, pl_lang_code = ''a''\<rparr>,
     core_model = KModel CORE_MODEL_PATH,
     trace = [LoadKModel CORE_MODEL_PATH, NewKPipeline (KModel CORE_MODEL_PATH) ''a'']\<rparr>"
  using assms
  by (auto simp: startup_def create_pipeline_def Let_def Settings_def
      split: if_splits option.splits)

lemma handle_coherent:
  assumes "\<And>lc. kpipeline_init env lc = None"
    and "pl_lang_code (pipeline s) = lang_code (settings s)"
  shows "pl_lang_code (pipeline (snd (handle env r s))) = lang_code (settings (snd (handle env r s)))"
proof (cases r)
  case GET_settings
  then show ?thesis using assms(2) by (simp add: get_settings_def)
next
  case (POST_settings new)
  show ?thesis
  proof (cases "voice new \<in> set (get_available_voices env)")
    case True
    then show ?thesis
      by (simp add: POST_settings update_settings_accepts assms(1))
  next
    case False
    then show ?thesis
      using assms(2) by (simp add: POST_settings update_settings_rejects)
  qed
next
  case (POST_synthesize_file d)
  then show ?thesis using synthesize_file_keeps [of env d s] assms(2) by simp
next
  case (POST_play_live d)
  then show ?thesis using play_live_keeps [of env d s] assms(2) by simp
qed

text \<open>
  C9. The invariant "the language code of the active pipeline is the one of the current
  settings" does not survive a \<open>POST /settings\<close> whose voice is valid and whose
  language code the constructor of the pipeline refuses: line 67 has stored the new
  settings when line 68 raises. The request is answered with status 500, the settings
  say \<open>zz\<close> and the pipeline still speaks \<open>a\<close>.
\<close>

theorem failed_update_leaves_settings_ahead_of_pipeline:
  "startup ex_srv_env = Inr ex_server \<and>
   pl_lang_code (pipeline ex_server) = lang_code (settings ex_server) \<and>
   status_code (fst (update_settings ex_srv_env \<lparr>lang_code = ''zz'', voice = ''af_sky.pt''\<rparr> ex_server)) = 500 \<and>
   lang_code (settings (snd (update_settings ex_srv_env \<lparr>lang_code = ''zz'', voice = ''af_sky.pt''\<rparr> ex_server))) = ''zz'' \<and>
   pl_lang_code (pipeline (snd (update_settings ex_srv_env \<lparr>lang_code = ''zz'', voice = ''af_sky.pt''\<rparr> ex_server))) = ''a''"
proof -
  have yes: "voice \<lparr>lang_code = ''zz'', voice = ''af_sky.pt''\<rparr> \<in> set (get_available_voices ex_srv_env)"
    by (simp add: voices_ex_srv_env)
  have "kpipeline_init ex_srv_env ''zz'' = Some (PyExc ''AssertionError'' ''zz'')"
    by (simp add: ex_srv_env_def)
  then show ?thesis
    by (simp add: update_settings_accepts [OF yes] startup_ex_srv_env)
       (simp add: ex_server_def Settings_def)
qed

section \<open>\<open>POST /synthesize_file\<close>\<close>

lemma synthesize_file_unfold:
  "synthesize_file env d s =
     (if text_of d = [] then (Inl (HTTPException 400 TextRequired), s)
      else
        (case kpipeline_call env (pipeline s) (text_of d) (voice_of s d) of
           Inl e \<Rightarrow> Inl (Unhandled e)
         | Inr frames \<Rightarrow>
             if frames = [] then Inl (HTTPException 500 NoAudioGenerated)
             else (case write_wav (concat frames) of
                     Inl e \<Rightarrow> Inl (Unhandled e)
                   | Inr body \<Rightarrow> Inr (WavAttachment body)),
         s\<lparr>trace := trace s @ [CallPipeline (pipeline s) (text_of d) (voice_of s d)]\<rparr>))"
  by (simp add: synthesize_file_def text_of_def voice_of_def Let_def split: sum.splits)

lemma strip_hi: "strip ''hi'' = ''hi''"
  by (simp add: strip_def isspace_def)

lemma long_frame_overflows: "write_wav long_frame = Inl struct_error"
  by (rule write_wav_overflow) (simp add: long_frame_def)

text \<open>
  C6, as stated, fails: the text is not empty and the pipeline yields a frame, yet the
  answer is 500, because the frame has \<open>2 ^ 32 - 36\<close> bytes and the size fields of the
  WAV header have 32 bits.
\<close>

theorem synthesize_file_long_audio_500:
  "text_of \<lparr>req_text = Some ''hi'', req_voice = None\<rparr> = ''hi'' \<and>
   kpipeline_call long_srv_env (pipeline ex_server) ''hi'' ''af_sky'' = Inr [long_frame] \<and>
   length long_frame = 4294967260 \<and>
   status_code (fst (synthesize_file long_srv_env \<lparr>req_text = Some ''hi'', req_voice = None\<rparr> ex_server)) = 500"
proof -
  have t: "text_of \<lparr>req_text = Some ''hi'', req_voice = None\<rparr> = ''hi''"
    by (simp add: text_of_def strip_hi)
  have v: "voice_of ex_server \<lparr>req_text = Some ''hi'', req_voice = None\<rparr> = ''af_sky''"
    by (simp add: voice_of_def ex_server_def Settings_def)
  have k: "kpipeline_call long_srv_env p ''hi'' ''af_sky'' = Inr [long_frame]" for p
    by (simp add: long_srv_env_def)
  show ?thesis
    by (simp add: synthesize_file_unfold t v k long_frame_overflows)
       (simp add: long_frame_def)
qed

text \<open>
  C6, amended. \<open>POST /synthesize_file\<close> answers 400 when the text is absent, empty or
  white space only; 500 when the pipeline yields no frame; and otherwise, for frames
  whose bytes together number less than \<open>2 ^ 32 - 36\<close>, 200 with a WAV body that is not
  empty (the 44-byte header followed by the bytes of the frames). From that size on the
  WAV writer raises and the answer is 500.
\<close>

theorem synthesize_file_status:
  "(text_of d = [] \<longrightarrow> status_code (fst (synthesize_file env d s)) = 400) \<and>
   (text_of d \<noteq> [] \<and> kpipeline_call env (pipeline s) (text_of d) (voice_of s d) = Inr [] \<longrightarrow>
      status_code (fst (synthesize_file env d s)) = 500) \<and>
   (text_of d \<noteq> [] \<and> kpipeline_call env (pipeline s) (text_of d) (voice_of s d) = Inr frames
      \<and> frames \<noteq> [] \<and> 36 + length (concat frames) < 2 ^ 32 \<longrightarrow>
      status_code (fst (synthesize_file env d s)) = 200 \<and>
      fst (synthesize_file env d s)
        = Inr (WavAttachment (riff_header (length (concat frames)) @ concat frames)) \<and>
      riff_header (length (concat frames)) @ concat frames \<noteq> []) \<and>
   (text_of d \<noteq> [] \<and> kpipeline_call env (pipeline s) (text_of d) (voice_of s d) = Inr frames
      \<and> frames \<noteq> [] \<and> \<not> 36 + length (concat frames) < 2 ^ 32 \<longrightarrow>
      status_code (fst (synthesize_file env d s)) = 500)"
proof (intro conjI impI)
  assume "text_of d = []"
  then show "status_code (fst (synthesize_file env d s)) = 400"
    by (simp add: synthesize_file_unfold)
next
  assume "text_of d \<noteq> [] \<and> kpipeline_call env (pipeline s) (text_of d) (voice_of s d) = Inr []"
  then show "status_code (fst (synthesize_file env d s)) = 500"
    by (simp add: synthesize_file_unfold)
next
  assume a: "text_of d \<noteq> [] \<and> kpipeline_call env (pipeline s) (text_of d) (voice_of s d) = Inr frames
      \<and> frames \<noteq> [] \<and> 36 + length (concat frames) < 2 ^ 32"
  then have w: "write_wav (concat frames) = Inr (riff_header (length (concat frames)) @ concat frames)"
    by (simp add: write_wav_ok)
  from a show "status_code (fst (synthesize_file env d s)) = 200"
    by (simp add: synthesize_file_unfold w)
  from a show "fst (synthesize_file env d s)
      = Inr (WavAttachment (riff_header (length (concat frames)) @ concat frames))"
    by (simp add: synthesize_file_unfold w)
  have "length (riff_header (length (concat frames)) @ concat frames) \<noteq> 0"
    by simp
  then show "riff_header (length (concat frames)) @ concat frames \<noteq> []"
    by (simp only: length_0_conv not_False_eq_True)
next
  assume a: "text_of d \<noteq> [] \<and> kpipeline_call env (pipeline s) (text_of d) (voice_of s d) = Inr frames
      \<and> frames \<noteq> [] \<and> \<not> 36 + length (concat frames) < 2 ^ 32"
  then have w: "write_wav (concat frames) = Inl struct_error"
    by (simp add: write_wav_overflow)
  from a show "status_code (fst (synthesize_file env d s)) = 500"
    by (simp add: synthesize_file_unfold w)
qed

theorem synthesize_file_status_witness:
  "text_of \<lparr>req_text = Some ''  '', req_voice = None\<rparr> = [] \<and>
   status_code (fst (synthesize_file ex_srv_env \<lparr>req_text = Some ''  '', req_voice = None\<rparr> ex_server)) = 400 \<and>
   text_of \<lparr>req_text = Some ''hi'', req_voice = None\<rparr> \<noteq> [] \<and>
   status_code (fst (synthesize_file ex_srv_env \<lparr>req_text = Some ''hi'', req_voice = None\<rparr> ex_server)) = 200 \<and>
   status_code (fst (synthesize_file (ex_srv_env\<lparr>kpipeline_call := (\<lambda>p t v. Inr [])\<rparr>)
      \<lparr>req_text = Some ''hi'', req_voice = None\<rparr> ex_server)) = 500 \<and>
   status_code (fst (synthesize_file long_srv_env \<lparr>req_text = Some ''hi'', req_voice = None\<rparr> ex_server)) = 500"
proof -
  let ?d = "\<lparr>req_text = Some ''hi'', req_voice = None\<rparr>"
  let ?b = "\<lparr>req_text = Some ''  '', req_voice = None\<rparr>"
  have b: "text_of ?b = []"
    by (simp add: text_of_def strip_def isspace_def)
  have t: "text_of ?d = ''hi''"
    by (simp add: text_of_def strip_hi)
  have k1: "kpipeline_call ex_srv_env (pipeline ex_server) (text_of ?d) (voice_of ex_server ?d)
      = Inr [[1, 2, 3, 4]]"
    by (simp add: ex_srv_env_def)
  have k2: "kpipeline_call (ex_srv_env\<lparr>kpipeline_call := (\<lambda>p t v. Inr [])\<rparr>) (pipeline ex_server)
      (text_of ?d) (voice_of ex_server ?d) = Inr []"
    by simp
  have k3: "kpipeline_call long_srv_env (pipeline ex_server) (text_of ?d) (voice_of ex_server ?d)
      = Inr [long_frame]"
    by (simp add: long_srv_env_def)
  have l: "\<not> 36 + length (concat [long_frame]) < (2::nat) ^ 32"
    by (simp add: long_frame_def)
  have s: "36 + length (concat [[1, 2, 3, 4 :: byte]]) < (2::nat) ^ 32"
    by simp
  show ?thesis
    using b t k1 k2 k3 l s
      synthesize_file_status [of ?b ex_srv_env ex_server]
      synthesize_file_status [of ?d ex_srv_env ex_server "[[1, 2, 3, 4]]"]
      synthesize_file_status [of ?d "ex_srv_env\<lparr>kpipeline_call := (\<lambda>p t v. Inr [])\<rparr>" ex_server]
      synthesize_file_status [of ?d long_srv_env ex_server "[long_frame]"]
    by (simp del: concat.simps)
qed

section \<open>The cache of model files\<close>

lemma bind_c_Inr: "m s = (Inr x, s1) \<Longrightarrow> bind_c m f s = f x s1"
  by (simp add: bind_c_def)

lemma bind_c_Inl: "m s = (Inl e, s1) \<Longrightarrow> bind_c m f s = (Inl e, s1)"
  by (simp add: bind_c_def)

lemma bind_c_cases:
  assumes "bind_c m f s = (r, s')"
  obtains e where "m s = (Inl e, s')" and "r = Inl e"
  | x s1 where "m s = (Inr x, s1)" and "f x s1 = (r, s')"
  using assms by (auto simp: bind_c_def split: prod.splits sum.splits)

lemma isdir_files [simp]: "isdir (s\<lparr>files := f\<rparr>) p = isdir s p"
  by (simp add: isdir_def)

lemma isdir_events [simp]: "isdir (s\<lparr>events := evs\<rparr>) p = isdir s p"
  by (simp add: isdir_def)

lemma download_file_present:
  "path_exists s p \<Longrightarrow> download_file env url p s = (Inr p, s)"
  by (simp add: download_file_def)

lemma download_file_returns:
  assumes "download_file env url p s = (Inr x, s')"
  shows "x = p \<and> path_exists s' p"
  using assms
  by (auto simp: download_file_def path_exists_def Let_def
      split: if_splits fetch.splits option.splits)

lemma download_file_keeps_paths:
  assumes "download_file env url p s = (r, s')" and "path_exists s q"
  shows "path_exists s' q"
  using assms
  by (auto simp: download_file_def path_exists_def Let_def
      split: if_splits fetch.splits option.splits)

lemma download_file_pending:
  assumes "download_file env url p s = (r, s')"
  shows "pending q s' \<le> pending q s \<and> (\<exists>evs. events s' = events s @ evs)"
  using assms
  by (auto simp: download_file_def path_exists_def pending_def downloads_of_def Let_def
      split: if_splits fetch.splits option.splits)

lemma download_model_files_present:
  assumes "path_exists s (path_join cd ''kokoro-v1.0.onnx'')"
    and "path_exists s (path_join cd ''voices-v1.0.bin'')"
  shows "download_model_files env cd s =
    (Inr (path_join cd ''kokoro-v1.0.onnx'', path_join cd ''voices-v1.0.bin''), s)"
  using assms
  by (simp add: download_model_files_def Let_def bind_c_def download_file_present return_c_def)

lemma download_model_files_returns:
  assumes "download_model_files env cd s = (Inr r, s')"
  shows "r = (path_join cd ''kokoro-v1.0.onnx'', path_join cd ''voices-v1.0.bin'') \<and>
    path_exists s' (path_join cd ''kokoro-v1.0.onnx'') \<and>
    path_exists s' (path_join cd ''voices-v1.0.bin'')"
proof -
  let ?mp = "path_join cd ''kokoro-v1.0.onnx''"
  let ?vp = "path_join cd ''voices-v1.0.bin''"
  from assms have b: "bind_c (download_file env model_url ?mp) (\<lambda>m.
      bind_c (download_file env voices_url ?vp) (\<lambda>v. return_c (m, v))) s = (Inr r, s')"
    by (simp add: download_model_files_def Let_def)
  from b obtain m s1 where m: "download_file env model_url ?mp s = (Inr m, s1)"
    and b2: "bind_c (download_file env voices_url ?vp) (\<lambda>v. return_c (m, v)) s1 = (Inr r, s')"
    by (rule bind_c_cases) auto
  from b2 obtain v s2 where v: "download_file env voices_url ?vp s1 = (Inr v, s2)"
    and r: "return_c (m, v) s2 = (Inr r, s')"
    by (rule bind_c_cases) auto
  from r have "r = (m, v)" "s' = s2"
    by (simp_all add: return_c_def)
  moreover from download_file_returns [OF m] have "m = ?mp" "path_exists s1 ?mp"
    by simp_all
  moreover from download_file_returns [OF v] have "v = ?vp" "path_exists s2 ?vp"
    by simp_all
  moreover from download_file_keeps_paths [OF v \<open>path_exists s1 ?mp\<close>] have "path_exists s2 ?mp" .
  ultimately show ?thesis by simp
qed

lemma download_model_files_pending:
  assumes "download_model_files env cd s = (r, s')"
  shows "pending q s' \<le> pending q s \<and> (\<exists>evs. events s' = events s @ evs)"
proof -
  let ?mp = "path_join cd ''kokoro-v1.0.onnx''"
  let ?vp = "path_join cd ''voices-v1.0.bin''"
  from assms have b: "bind_c (download_file env model_url ?mp) (\<lambda>m.
      bind_c (download_file env voices_url ?vp) (\<lambda>v. return_c (m, v))) s = (r, s')"
    by (simp add: download_model_files_def Let_def)
  from b show ?thesis
  proof (rule bind_c_cases)
    fix e
    assume "download_file env model_url ?mp s = (Inl e, s')"
    then show ?thesis by (rule download_file_pending)
  next
    fix m s1
    assume m: "download_file env model_url ?mp s = (Inr m, s1)"
      and b2: "bind_c (download_file env voices_url ?vp) (\<lambda>v. return_c (m, v)) s1 = (r, s')"
    note p1 = download_file_pending [OF m, of q]
    from b2 show ?thesis
    proof (rule bind_c_cases)
      fix e
      assume "download_file env voices_url ?vp s1 = (Inl e, s')"
      from download_file_pending [OF this, of q] p1 show ?thesis by auto
    next
      fix v s2
      assume v: "download_file env voices_url ?vp s1 = (Inr v, s2)"
        and "return_c (m, v) s2 = (r, s')"
      then have "s' = s2" by (simp add: return_c_def)
      with download_file_pending [OF v, of q] p1 show ?thesis by auto
    qed
  qed
qed

lemma download_file_events:
  "download_file env url p s = (r, s') \<Longrightarrow>
   events s' = events s \<or>
   events s' = events s @ [LogInfoDownloading (basename p), UrlRetrieve url p] \<or>
   events s' = events s @ [LogInfoDownloading (basename p), UrlRetrieve url p, Downloaded p]"
  by (auto simp: download_file_def Let_def split: if_splits fetch.splits option.splits)

lemma urls_differ: "model_url \<noteq> voices_url"
  by (simp add: model_url_def voices_url_def)

lemma download_file_requests:
  assumes "download_file env url p s = (r, s')"
  shows "\<exists>evs. events s' = events s @ evs \<and>
    requests_of u q evs \<le> (if u = url then 1 else 0)"
  using download_file_events [OF assms]
  by (auto simp: requests_of_def)

lemma download_model_files_requests:
  assumes "download_model_files env cd s = (r, s')"
  shows "requests_of u q (new_events s s') \<le> 1"
proof -
  let ?mp = "path_join cd ''kokoro-v1.0.onnx''"
  let ?vp = "path_join cd ''voices-v1.0.bin''"
  have both: "requests_of u q (evs1 @ evs2) \<le> 1"
    if "requests_of u q evs1 \<le> (if u = model_url then 1 else 0)"
      and "requests_of u q evs2 \<le> (if u = voices_url then 1 else 0)" for evs1 evs2
    using that urls_differ by (auto simp: requests_of_def split: if_splits)
  from assms have b: "bind_c (download_file env model_url ?mp) (\<lambda>m.
      bind_c (download_file env voices_url ?vp) (\<lambda>v. return_c (m, v))) s = (r, s')"
    by (simp add: download_model_files_def Let_def)
  from b have "\<exists>evs1 evs2. events s' = events s @ evs1 @ evs2 \<and>
      requests_of u q evs1 \<le> (if u = model_url then 1 else 0) \<and>
      requests_of u q evs2 \<le> (if u = voices_url then 1 else 0)"
  proof (rule bind_c_cases)
    fix e
    assume "download_file env model_url ?mp s = (Inl e, s')"
    from download_file_requests [OF this, of u q] obtain evs
      where "events s' = events s @ evs @ []"
        "requests_of u q evs \<le> (if u = model_url then 1 else 0)"
      by auto
    moreover have "requests_of u q [] \<le> (if u = voices_url then 1 else 0)"
      by (simp add: requests_of_def)
    ultimately show ?thesis by blast
  next
    fix m s1
    assume m: "download_file env model_url ?mp s = (Inr m, s1)"
      and b2: "bind_c (download_file env voices_url ?vp) (\<lambda>v. return_c (m, v)) s1 = (r, s')"
    from download_file_requests [OF m, of u q] obtain evs1
      where e1: "events s1 = events s @ evs1"
        "requests_of u q evs1 \<le> (if u = model_url then 1 else 0)"
      by auto
    from b2 have "\<exists>evs2. events s' = events s1 @ evs2 \<and>
        requests_of u q evs2 \<le> (if u = voices_url then 1 else 0)"
    proof (rule bind_c_cases)
      fix e
      assume "download_file env voices_url ?vp s1 = (Inl e, s')"
      then show ?thesis by (rule download_file_requests)
    next
      fix v s2
      assume v: "download_file env voices_url ?vp s1 = (Inr v, s2)"
        and "return_c (m, v) s2 = (r, s')"
      then have "s' = s2" by (simp add: return_c_def)
      with download_file_requests [OF v, of u q] show ?thesis by simp
    qed
    then obtain evs2 where "events s' = events s1 @ evs2"
      "requests_of u q evs2 \<le> (if u = voices_url then 1 else 0)"
      by blast
    with e1 have "events s' = events s @ evs1 @ evs2 \<and>
        requests_of u q evs1 \<le> (if u = model_url then 1 else 0) \<and>
        requests_of u q evs2 \<le> (if u = voices_url then 1 else 0)"
      by simp
    then show ?thesis by blast
  qed
  then obtain evs1 evs2 where "events s' = events s @ evs1 @ evs2"
    and "requests_of u q evs1 \<le> (if u = model_url then 1 else 0)"
    and "requests_of u q evs2 \<le> (if u = voices_url then 1 else 0)"
    by blast
  with both [of evs1 evs2] show ?thesis
    by (simp add: new_events_def)
qed

lemma downloads_of_new_events:
  assumes "events s' = events s @ evs"
  shows "downloads_of q (new_events s s') + downloads_of q (events s) = downloads_of q (events s')"
  using assms by (simp add: new_events_def downloads_of_def)

text \<open>
  C5. When both artifact files exist, the resolver returns the two paths and leaves the
  state as it is: no request on the network, no write to the file system, no message.
  After a call that has returned, a second call returns the same pair of paths and does
  nothing, so the two calls together send at most one request for each file. Two calls
  in succession, whatever the network does, complete at most one download of each file.
\<close>

theorem download_model_files_idempotent:
  "(path_exists s (path_join cd ''kokoro-v1.0.onnx'') \<and> path_exists s (path_join cd ''voices-v1.0.bin'')
      \<longrightarrow> download_model_files env cd s
        = (Inr (path_join cd ''kokoro-v1.0.onnx'', path_join cd ''voices-v1.0.bin''), s)) \<and>
   (\<forall>r. fst (download_model_files env cd s) = Inr r \<longrightarrow>
      download_model_files env' cd (snd (download_model_files env cd s))
        = (Inr r, snd (download_model_files env cd s))) \<and>
   (\<forall>r. fst (download_model_files env cd s) = Inr r \<longrightarrow>
      requests_of u q
        (new_events s (snd (download_model_files env' cd (snd (download_model_files env cd s))))) \<le> 1) \<and>
   downloads_of q
     (new_events s (snd (download_model_files env' cd (snd (download_model_files env cd s))))) \<le> 1"
proof (intro conjI impI allI)
  assume "path_exists s (path_join cd ''kokoro-v1.0.onnx'') \<and> path_exists s (path_join cd ''voices-v1.0.bin'')"
  then show "download_model_files env cd s
      = (Inr (path_join cd ''kokoro-v1.0.onnx'', path_join cd ''voices-v1.0.bin''), s)"
    by (simp add: download_model_files_present)
next
  fix r
  assume "fst (download_model_files env cd s) = Inr r"
  then have "download_model_files env cd s = (Inr r, snd (download_model_files env cd s))"
    by (simp add: prod_eq_iff)
  from download_model_files_returns [OF this]
  show "download_model_files env' cd (snd (download_model_files env cd s))
      = (Inr r, snd (download_model_files env cd s))"
    by (simp add: download_model_files_present)
next
  fix r
  assume "fst (download_model_files env cd s) = Inr r"
  then have c: "download_model_files env cd s = (Inr r, snd (download_model_files env cd s))"
    by (simp add: prod_eq_iff)
  from download_model_files_returns [OF c]
  have "download_model_files env' cd (snd (download_model_files env cd s))
      = (Inr r, snd (download_model_files env cd s))"
    by (simp add: download_model_files_present)
  then show "requests_of u q
      (new_events s (snd (download_model_files env' cd (snd (download_model_files env cd s))))) \<le> 1"
    using download_model_files_requests [OF c, of u q] by simp
next
  let ?s1 = "snd (download_model_files env cd s)"
  let ?s2 = "snd (download_model_files env' cd ?s1)"
  have c1: "download_model_files env cd s = (fst (download_model_files env cd s), ?s1)"
    by simp
  have c2: "download_model_files env' cd ?s1 = (fst (download_model_files env' cd ?s1), ?s2)"
    by simp
  from download_model_files_pending [OF c1, of q] obtain evs1
    where p1: "pending q ?s1 \<le> pending q s" and e1: "events ?s1 = events s @ evs1"
    by blast
  from download_model_files_pending [OF c2, of q] obtain evs2
    where p2: "pending q ?s2 \<le> pending q ?s1" and e2: "events ?s2 = events ?s1 @ evs2"
    by blast
  have "events ?s2 = events s @ (evs1 @ evs2)"
    by (simp add: e1 e2)
  from downloads_of_new_events [OF this, of q]
  have "downloads_of q (new_events s ?s2) + downloads_of q (events s) = downloads_of q (events ?s2)" .
  moreover have "downloads_of q (events ?s2) \<le> pending q ?s2"
    by (simp add: pending_def)
  moreover have "pending q s \<le> downloads_of q (events s) + 1"
    by (simp add: pending_def)
  ultimately show "downloads_of q (new_events s ?s2) \<le> 1"
    using p1 p2 by linarith
qed

lemma path_join_c:
  "path_join ''/c'' ''kokoro-v1.0.onnx'' = ''/c/kokoro-v1.0.onnx''"
  "path_join ''/c'' ''voices-v1.0.bin'' = ''/c/voices-v1.0.bin''"
  by (simp_all add: path_join_def)

lemma dirname_c:
  "dirname ''/c/kokoro-v1.0.onnx'' = ''/c''"
  "dirname ''/c/voices-v1.0.bin'' = ''/c''"
  by (simp_all add: dirname_def norm_dir_def is_slash_def)

lemma download_into_cold_cache:
  "download_model_files ex_cli_env ''/c'' cold_cli_state
     = (Inr (''/c/kokoro-v1.0.onnx'', ''/c/voices-v1.0.bin''),
        cold_cli_state\<lparr>files := [''/c/kokoro-v1.0.onnx'' \<mapsto> ''bytes'',
                                  ''/c/voices-v1.0.bin'' \<mapsto> ''bytes''],
          events := [LogInfoDownloading ''kokoro-v1.0.onnx'',
                     UrlRetrieve model_url ''/c/kokoro-v1.0.onnx'',
                     Downloaded ''/c/kokoro-v1.0.onnx'',
                     LogInfoDownloading ''voices-v1.0.bin'',
                     UrlRetrieve voices_url ''/c/voices-v1.0.bin'',
                     Downloaded ''/c/voices-v1.0.bin'']\<rparr>)"
  by (simp add: download_model_files_def Let_def bind_c_def download_file_def path_exists_def
      isdir_def can_create_def dirname_c norm_dir_def is_slash_def basename_def
      cold_cli_state_def ex_cli_env_def return_c_def path_join_c)

theorem download_model_files_idempotent_witness:
  "path_exists ex_cli_state ''/c/kokoro-v1.0.onnx'' \<and>
   path_exists ex_cli_state ''/c/voices-v1.0.bin'' \<and>
   download_model_files ex_cli_env ''/c'' ex_cli_state
     = (Inr (''/c/kokoro-v1.0.onnx'', ''/c/voices-v1.0.bin''), ex_cli_state) \<and>
   isdir cold_cli_state ''/c'' \<and>
   \<not> path_exists cold_cli_state ''/c/kokoro-v1.0.onnx'' \<and>
   \<not> path_exists cold_cli_state ''/c/voices-v1.0.bin'' \<and>
   fst (download_model_files ex_cli_env ''/c'' cold_cli_state)
     = Inr (''/c/kokoro-v1.0.onnx'', ''/c/voices-v1.0.bin'') \<and>
   downloads_of ''/c/kokoro-v1.0.onnx''
     (events (snd (download_model_files ex_cli_env ''/c'' cold_cli_state))) = 1 \<and>
   download_model_files ex_cli_env ''/c'' (snd (download_model_files ex_cli_env ''/c'' cold_cli_state))
     = (Inr (''/c/kokoro-v1.0.onnx'', ''/c/voices-v1.0.bin''),
        snd (download_model_files ex_cli_env ''/c'' cold_cli_state)) \<and>
   downloads_of ''/c/kokoro-v1.0.onnx''
     (new_events cold_cli_state
       (snd (download_model_files ex_cli_env ''/c''
         (snd (download_model_files ex_cli_env ''/c'' cold_cli_state))))) \<le> 1"
proof -
  have p: "path_exists ex_cli_state ''/c/kokoro-v1.0.onnx''"
    "path_exists ex_cli_state ''/c/voices-v1.0.bin''"
    by (simp_all add: path_exists_def ex_cli_state_def)
  have c: "isdir cold_cli_state ''/c''"
    "\<not> path_exists cold_cli_state ''/c/kokoro-v1.0.onnx''"
    "\<not> path_exists cold_cli_state ''/c/voices-v1.0.bin''"
    by (simp_all add: path_exists_def isdir_def norm_dir_def is_slash_def cold_cli_state_def)
  have f: "fst (download_model_files ex_cli_env ''/c'' cold_cli_state)
     = Inr (''/c/kokoro-v1.0.onnx'', ''/c/voices-v1.0.bin'')"
    by (simp add: download_into_cold_cache)
  have d: "downloads_of ''/c/kokoro-v1.0.onnx''
     (events (snd (download_model_files ex_cli_env ''/c'' cold_cli_state))) = 1"
    by (simp add: download_into_cold_cache downloads_of_def)
  note warm = download_model_files_idempotent [where s = ex_cli_state and cd = "''/c''"
      and env = ex_cli_env and env' = ex_cli_env and u = model_url
      and q = "''/c/kokoro-v1.0.onnx''"]
  note cold = download_model_files_idempotent [where s = cold_cli_state and cd = "''/c''"
      and env = ex_cli_env and env' = ex_cli_env and u = model_url
      and q = "''/c/kokoro-v1.0.onnx''"]
  from warm p have w: "download_model_files ex_cli_env ''/c'' ex_cli_state
     = (Inr (''/c/kokoro-v1.0.onnx'', ''/c/voices-v1.0.bin''), ex_cli_state)"
    by (simp only: path_join_c simp_thms)
  from cold f have again: "download_model_files ex_cli_env ''/c''
       (snd (download_model_files ex_cli_env ''/c'' cold_cli_state))
     = (Inr (''/c/kokoro-v1.0.onnx'', ''/c/voices-v1.0.bin''),
        snd (download_model_files ex_cli_env ''/c'' cold_cli_state))"
    by blast
  from cold have once: "downloads_of ''/c/kokoro-v1.0.onnx''
     (new_events cold_cli_state
       (snd (download_model_files ex_cli_env ''/c''
         (snd (download_model_files ex_cli_env ''/c'' cold_cli_state))))) \<le> 1"
    by blast
  from p c f d w again once show ?thesis
    by (simp only: simp_thms)
qed

section \<open>The synthesis path of the command line\<close>

subsection \<open>Every step only adds to the sequence of effects\<close>

lemma bind_c_assoc: "bind_c (bind_c m f) g = bind_c m (\<lambda>x. bind_c (f x) g)"
  by (auto simp: bind_c_def fun_eq_iff split: prod.splits sum.splits)

lemma bind_c_appends:
  assumes b: "bind_c m f s = (r, s')"
    and m: "\<And>r1 s1. m s = (r1, s1) \<Longrightarrow> \<exists>evs. events s1 = events s @ evs"
    and f: "\<And>x s1 r2 s2. f x s1 = (r2, s2) \<Longrightarrow> \<exists>evs. events s2 = events s1 @ evs"
  shows "\<exists>evs. events s' = events s @ evs"
  using b
proof (rule bind_c_cases)
  fix e
  assume "m s = (Inl e, s')"
  then show ?thesis by (rule m)
next
  fix x s1
  assume "m s = (Inr x, s1)" and "f x s1 = (r, s')"
  from m [OF this(1)] f [OF this(2)] show ?thesis by auto
qed

lemma makedirs_events: "makedirs p s = (r, s') \<Longrightarrow> events s' = events s @ [MakeDirs p]"
  by (auto simp: makedirs_def split: if_splits)

lemma emit_events: "emit ev s = (r, s') \<Longrightarrow> events s' = events s @ [ev] \<and> r = Inr ()"
  by (auto simp: emit_def)

lemma create_events:
  "create env t v sp l s = (r, s') \<Longrightarrow> events s' = events s @ [KokoroCreate t v sp l]"
  by (auto simp: create_def)

lemma Kokoro_new_events:
  "Kokoro_new env m v s = (r, s') \<Longrightarrow> events s' = events s @ [KokoroInit m v]"
  by (auto simp: Kokoro_new_def Let_def split: option.splits)

lemma write_file_events:
  "write_file env p a rate s = (r, s') \<Longrightarrow> events s' = events s @ [SfWrite p]"
  by (auto simp: write_file_def Let_def split: sum.splits)

lemma play_events:
  "play env a rate d s = (r, s') \<Longrightarrow>
   events s' = events s @ [SdPlay d] \<or> events s' = events s @ [SdPlay d, SdWait]"
  by (auto simp: play_def Let_def split: option.splits)

lemma download_model_files_inits:
  assumes "download_model_files env cd s = (r, s')"
  shows "\<exists>evs. events s' = events s @ evs \<and> kokoro_inits evs = 0"
proof -
  let ?mp = "path_join cd ''kokoro-v1.0.onnx''"
  let ?vp = "path_join cd ''voices-v1.0.bin''"
  have one: "\<exists>evs. events s2 = events s1 @ evs \<and> kokoro_inits evs = 0"
    if "download_file env url p s1 = (r1, s2)" for url p s1 r1 s2
    using download_file_events [OF that] by (auto simp: kokoro_inits_def)
  from assms have b: "bind_c (download_file env model_url ?mp) (\<lambda>m.
      bind_c (download_file env voices_url ?vp) (\<lambda>v. return_c (m, v))) s = (r, s')"
    by (simp add: download_model_files_def Let_def)
  from b show ?thesis
  proof (rule bind_c_cases)
    fix e
    assume "download_file env model_url ?mp s = (Inl e, s')"
    then show ?thesis by (rule one)
  next
    fix m s1
    assume m: "download_file env model_url ?mp s = (Inr m, s1)"
      and b2: "bind_c (download_file env voices_url ?vp) (\<lambda>v. return_c (m, v)) s1 = (r, s')"
    from one [OF m] obtain evs1 where e1: "events s1 = events s @ evs1" "kokoro_inits evs1 = 0"
      by blast
    from b2 have "\<exists>evs. events s' = events s1 @ evs \<and> kokoro_inits evs = 0"
    proof (rule bind_c_cases)
      fix e
      assume "download_file env voices_url ?vp s1 = (Inl e, s')"
      then show ?thesis by (rule one)
    next
      fix v s2
      assume v: "download_file env voices_url ?vp s1 = (Inr v, s2)"
        and "return_c (m, v) s2 = (r, s')"
      then have "s' = s2" by (simp add: return_c_def)
      with one [OF v] show ?thesis by simp
    qed
    then obtain evs2 where "events s' = events s1 @ evs2" "kokoro_inits evs2 = 0"
      by blast
    with e1 have "events s' = events s @ (evs1 @ evs2) \<and> kokoro_inits (evs1 @ evs2) = 0"
      by (simp add: kokoro_inits_def)
    then show ?thesis by blast
  qed
qed

lemma get_cache_dirs_events:
  assumes "get_cache_dirs env s = (r, s')"
  shows "\<exists>evs. events s' = events s @ MakeDirs (user_cache_dir env) # evs \<and> kokoro_inits evs = 0"
proof -
  from assms have b: "bind_c (makedirs (user_cache_dir env)) (\<lambda>_.
      bind_c (makedirs (user_data_dir env)) (\<lambda>_.
        return_c (user_cache_dir env, user_data_dir env))) s = (r, s')"
    by (simp add: get_cache_dirs_def)
  from b show ?thesis
  proof (rule bind_c_cases)
    fix e
    assume "makedirs (user_cache_dir env) s = (Inl e, s')"
    from makedirs_events [OF this] show ?thesis by (simp add: kokoro_inits_def)
  next
    fix x s1
    assume m: "makedirs (user_cache_dir env) s = (Inr x, s1)"
      and b2: "bind_c (makedirs (user_data_dir env)) (\<lambda>_.
        return_c (user_cache_dir env, user_data_dir env)) s1 = (r, s')"
    note e1 = makedirs_events [OF m]
    from b2 have "events s' = events s1 @ [MakeDirs (user_data_dir env)]"
    proof (rule bind_c_cases)
      fix e
      assume "makedirs (user_data_dir env) s1 = (Inl e, s')"
      then show ?thesis by (rule makedirs_events)
    next
      fix y s2
      assume d: "makedirs (user_data_dir env) s1 = (Inr y, s2)"
        and "return_c (user_cache_dir env, user_data_dir env) s2 = (r, s')"
      then have "s' = s2" by (simp add: return_c_def)
      with makedirs_events [OF d] show ?thesis by simp
    qed
    with e1 show ?thesis by (simp add: kokoro_inits_def)
  qed
qed

text \<open>Lines 81 to 92: the audio goes to a file or to a device.\<close>

lemma deliver_events:
  assumes "(case out of
         Some path \<Rightarrow>
           if path \<noteq> [] then
             bind_c (write_file env path a rate) (\<lambda>_.
               emit (Stdout (''Audio saved to '' @ path)))
           else if dev \<noteq> None then play env a rate dev
           else play env a rate None
       | None \<Rightarrow>
           if dev \<noteq> None then play env a rate dev
           else play env a rate None) s = (r, s')"
  shows "\<exists>evs. events s' = events s @ evs \<and> kokoro_inits evs = 0"
proof -
  have p: "\<exists>evs. events s2 = events s1 @ evs \<and> kokoro_inits evs = 0"
    if "play env a rate d s1 = (r1, s2)" for d s1 r1 s2
    using play_events [OF that] by (auto simp: kokoro_inits_def)
  have w: "\<exists>evs. events s2 = events s1 @ evs \<and> kokoro_inits evs = 0"
    if "bind_c (write_file env path a rate) (\<lambda>_. emit (Stdout msg)) s1
      = (r1, s2)" for path msg s1 r1 s2
    using that
  proof (rule bind_c_cases)
    fix e
    assume "write_file env path a rate s1 = (Inl e, s2)"
    from write_file_events [OF this] show ?thesis by (simp add: kokoro_inits_def)
  next
    fix x s3
    assume "write_file env path a rate s1 = (Inr x, s3)"
      and "emit (Stdout msg) s3 = (r1, s2)"
    from write_file_events [OF this(1)] emit_events [OF this(2)] show ?thesis
      by (simp add: kokoro_inits_def)
  qed
  from assms show ?thesis
    by (auto split: option.splits if_splits dest: p w)
qed

subsection \<open>What one call of \<open>text_to_speech\<close> adds\<close>

text \<open>
  The first effect is the creation of the cache directory; the engine is constructed
  after the artifacts are there, once, and a call that returns has constructed it and
  has passed the text, the voice, the speed and the language to it as they came.
\<close>

lemma text_to_speech_trace:
  assumes "text_to_speech env t out dev v sp l dbg s = (r, s')"
  shows "\<exists>pre tail. events s' = events s @ MakeDirs (user_cache_dir env) # pre @ tail \<and>
     kokoro_inits pre = 0 \<and>
     (case r of
        Inl e \<Rightarrow> kokoro_inits tail \<le> 1
      | Inr u \<Rightarrow> kokoro_inits tail = 1 \<and> KokoroCreate t v sp l \<in> set tail)"
  using assms unfolding text_to_speech_def
proof (rule bind_c_cases)
  fix e
  assume "get_cache_dirs env s = (Inl e, s')" and r: "r = Inl e"
  from get_cache_dirs_events [OF this(1)] obtain evs
    where "events s' = events s @ MakeDirs (user_cache_dir env) # evs" "kokoro_inits evs = 0"
    by blast
  then have "events s' = events s @ MakeDirs (user_cache_dir env) # evs @ [] \<and>
      kokoro_inits evs = 0 \<and> kokoro_inits [] \<le> 1"
    by (simp add: kokoro_inits_def)
  then show ?thesis unfolding r by (intro exI [of _ evs] exI [of _ "[]"]) simp
next
  fix x s1
  assume g: "get_cache_dirs env s = (Inr x, s1)"
    and rest1: "(case x of (c1, d1) \<Rightarrow>
        bind_c (download_model_files env c1) (\<lambda>(model_path, voices_path).
        bind_c (Kokoro_new env model_path voices_path) (\<lambda>_.
        bind_c (emit (LogInfoGenerating v sp l)) (\<lambda>_.
        bind_c (create env t v sp l) (\<lambda>(a, sample_rate).
          case out of
            Some path \<Rightarrow>
              if path \<noteq> [] then
                bind_c (write_file env path a sample_rate) (\<lambda>_.
                  emit (Stdout (''Audio saved to '' @ path)))
              else if dev \<noteq> None then play env a sample_rate dev
              else play env a sample_rate None
          | None \<Rightarrow>
              if dev \<noteq> None then play env a sample_rate dev
              else play env a sample_rate None))))) s1 = (r, s')"
  from get_cache_dirs_events [OF g] obtain evs0
    where e0: "events s1 = events s @ MakeDirs (user_cache_dir env) # evs0" "kokoro_inits evs0 = 0"
    by blast
  obtain cd dd where x: "x = (cd, dd)" by (cases x)
  from rest1 [unfolded x prod.case] show ?thesis
  proof (rule bind_c_cases)
    fix e
    assume d: "download_model_files env cd s1 = (Inl e, s')" and r: "r = Inl e"
    from download_model_files_inits [OF d] obtain evs1
      where "events s' = events s1 @ evs1" "kokoro_inits evs1 = 0"
      by blast
    with e0 have "events s' = events s @ MakeDirs (user_cache_dir env) # (evs0 @ evs1) @ [] \<and>
        kokoro_inits (evs0 @ evs1) = 0 \<and> kokoro_inits [] \<le> 1"
      by (simp add: kokoro_inits_def)
    then show ?thesis unfolding r by (intro exI [of _ "evs0 @ evs1"] exI [of _ "[]"]) simp
  next
    fix y s2
    assume d: "download_model_files env cd s1 = (Inr y, s2)"
      and rest2: "(case y of (model_path, voices_path) \<Rightarrow>
        bind_c (Kokoro_new env model_path voices_path) (\<lambda>_.
        bind_c (emit (LogInfoGenerating v sp l)) (\<lambda>_.
        bind_c (create env t v sp l) (\<lambda>(a, sample_rate).
          case out of
            Some path \<Rightarrow>
              if path \<noteq> [] then
                bind_c (write_file env path a sample_rate) (\<lambda>_.
                  emit (Stdout (''Audio saved to '' @ path)))
              else if dev \<noteq> None then play env a sample_rate dev
              else play env a sample_rate None
          | None \<Rightarrow>
              if dev \<noteq> None then play env a sample_rate dev
              else play env a sample_rate None)))) s2 = (r, s')"
    from download_model_files_inits [OF d] obtain evs1
      where e1: "events s2 = events s1 @ evs1" "kokoro_inits evs1 = 0"
      by blast
    from e0 e1 have pre: "events s2 = events s @ MakeDirs (user_cache_dir env) # (evs0 @ evs1)"
      "kokoro_inits (evs0 @ evs1) = 0"
      by (simp_all add: kokoro_inits_def)
    obtain mp vp where y: "y = (mp, vp)" by (cases y)
    have tail: "\<exists>tail. events s' = events s2 @ tail \<and>
        (case r of
           Inl e \<Rightarrow> kokoro_inits tail \<le> 1
         | Inr u \<Rightarrow> kokoro_inits tail = 1 \<and> KokoroCreate t v sp l \<in> set tail)"
      using rest2 [unfolded y prod.case]
    proof (rule bind_c_cases)
      fix e
      assume k: "Kokoro_new env mp vp s2 = (Inl e, s')" and r: "r = Inl e"
      from Kokoro_new_events [OF k] show ?thesis
        unfolding r by (simp add: kokoro_inits_def)
    next
      fix u3 s3
      assume k: "Kokoro_new env mp vp s2 = (Inr u3, s3)"
        and rest3: "bind_c (emit (LogInfoGenerating v sp l)) (\<lambda>_.
          bind_c (create env t v sp l) (\<lambda>(a, sample_rate).
            case out of
              Some path \<Rightarrow>
                if path \<noteq> [] then
                  bind_c (write_file env path a sample_rate) (\<lambda>_.
                    emit (Stdout (''Audio saved to '' @ path)))
                else if dev \<noteq> None then play env a sample_rate dev
                else play env a sample_rate None
            | None \<Rightarrow>
                if dev \<noteq> None then play env a sample_rate dev
                else play env a sample_rate None)) s3 = (r, s')"
      note e3 = Kokoro_new_events [OF k]
      from rest3 show ?thesis
      proof (rule bind_c_cases)
        fix e
        assume "emit (LogInfoGenerating v sp l) s3 = (Inl e, s')"
        from emit_events [OF this] show ?thesis by simp
      next
        fix u4 s4
        assume m: "emit (LogInfoGenerating v sp l) s3 = (Inr u4, s4)"
          and rest4: "bind_c (create env t v sp l) (\<lambda>(a, sample_rate).
            case out of
              Some path \<Rightarrow>
                if path \<noteq> [] then
                  bind_c (write_file env path a sample_rate) (\<lambda>_.
                    emit (Stdout (''Audio saved to '' @ path)))
                else if dev \<noteq> None then play env a sample_rate dev
                else play env a sample_rate None
            | None \<Rightarrow>
                if dev \<noteq> None then play env a sample_rate dev
                else play env a sample_rate None) s4 = (r, s')"
        from emit_events [OF m] e3
        have e4: "events s4 = events s2 @ [KokoroInit mp vp, LogInfoGenerating v sp l]"
          by simp
        from rest4 show ?thesis
        proof (rule bind_c_cases)
          fix e
          assume c: "create env t v sp l s4 = (Inl e, s')" and r: "r = Inl e"
          from create_events [OF c] e4 show ?thesis
            unfolding r by (simp add: kokoro_inits_def)
        next
          fix z s5
          assume c: "create env t v sp l s4 = (Inr z, s5)"
            and rest5: "(case z of (a, sample_rate) \<Rightarrow>
              case out of
                Some path \<Rightarrow>
                  if path \<noteq> [] then
                    bind_c (write_file env path a sample_rate) (\<lambda>_.
                      emit (Stdout (''Audio saved to '' @ path)))
                  else if dev \<noteq> None then play env a sample_rate dev
                  else play env a sample_rate None
              | None \<Rightarrow>
                  if dev \<noteq> None then play env a sample_rate dev
                  else play env a sample_rate None) s5 = (r, s')"
          from create_events [OF c] e4
          have e5: "events s5 = events s2
              @ [KokoroInit mp vp, LogInfoGenerating v sp l, KokoroCreate t v sp l]"
            by simp
          obtain a rate where z: "z = (a, rate)" by (cases z)
          from deliver_events [OF rest5 [unfolded z prod.case]] obtain evs
            where "events s' = events s5 @ evs" "kokoro_inits evs = 0"
            by blast
          with e5 have "events s' = events s2
              @ ([KokoroInit mp vp, LogInfoGenerating v sp l, KokoroCreate t v sp l] @ evs)"
            "kokoro_inits ([KokoroInit mp vp, LogInfoGenerating v sp l, KokoroCreate t v sp l] @ evs) = 1"
            "KokoroCreate t v sp l
              \<in> set ([KokoroInit mp vp, LogInfoGenerating v sp l, KokoroCreate t v sp l] @ evs)"
            by (simp_all add: kokoro_inits_def)
          then show ?thesis
            by (cases r) (metis sum.simps(5) le_refl, metis sum.simps(6))
        qed
      qed
    qed
    then obtain tail where t: "events s' = events s2 @ tail"
      "(case r of
           Inl e \<Rightarrow> kokoro_inits tail \<le> 1
         | Inr u \<Rightarrow> kokoro_inits tail = 1 \<and> KokoroCreate t v sp l \<in> set tail)"
      by blast
    from t(1) pre(1) have "events s' = events s @ MakeDirs (user_cache_dir env) # (evs0 @ evs1) @ tail"
      by simp
    with pre(2) t(2) show ?thesis by blast
  qed
qed

lemma kokoro_inits_append: "kokoro_inits (xs @ ys) = kokoro_inits xs + kokoro_inits ys"
  by (simp add: kokoro_inits_def)

lemma kokoro_inits_MakeDirs: "kokoro_inits (MakeDirs p # xs) = kokoro_inits xs"
  by (simp add: kokoro_inits_def)

lemma text_to_speech_constructs_engine:
  assumes "text_to_speech env t out dev v sp l dbg s = (Inr u, s')"
  shows "kokoro_inits (events s') = Suc (kokoro_inits (events s))"
    and "KokoroCreate t v sp l \<in> set (new_events s s')"
proof -
  from text_to_speech_trace [OF assms] obtain pre tail
    where e: "events s' = events s @ MakeDirs (user_cache_dir env) # pre @ tail"
      and p: "kokoro_inits pre = 0" and t: "kokoro_inits tail = 1"
      and c: "KokoroCreate t v sp l \<in> set tail"
    by auto
  show "kokoro_inits (events s') = Suc (kokoro_inits (events s))"
    by (simp add: e p t kokoro_inits_append kokoro_inits_MakeDirs)
  show "KokoroCreate t v sp l \<in> set (new_events s s')"
    using c by (simp add: new_events_def e)
qed

lemma text_to_speech_leaves_effects:
  "filter synthesis_effect (new_events s (snd (text_to_speech env t out dev v sp l dbg s))) \<noteq> []"
proof -
  obtain r s' where c: "text_to_speech env t out dev v sp l dbg s = (r, s')"
    by (cases "text_to_speech env t out dev v sp l dbg s")
  from text_to_speech_trace [OF c] obtain pre tail
    where "events s' = events s @ MakeDirs (user_cache_dir env) # pre @ tail"
    by blast
  then show ?thesis
    by (simp add: c new_events_def)
qed

subsection \<open>A run on a machine whose cache is filled\<close>

lemma norm_dir_c: "norm_dir ''/c'' = ''/c''" "norm_dir ''/d'' = ''/d''"
  by (simp_all add: norm_dir_def is_slash_def)

lemma text_to_speech_ex:
  assumes "files s = files ex_cli_state"
  shows "text_to_speech ex_cli_env t None None v sp l dbg s =
    (Inr (), s\<lparr>dirs := insert ''/d'' (insert ''/c'' (dirs s)),
               events := events s @ [MakeDirs ''/c'', MakeDirs ''/d'',
                 KokoroInit ''/c/kokoro-v1.0.onnx'' ''/c/voices-v1.0.bin'',
                 LogInfoGenerating v sp l, KokoroCreate t v sp l, SdPlay None, SdWait]\<rparr>)"
  by (simp add: text_to_speech_def bind_c_def return_c_def emit_def makedirs_def
      get_cache_dirs_def download_model_files_def download_file_def Kokoro_new_def create_def
      play_def Let_def ex_cli_env_def path_exists_def assms ex_cli_state_def path_join_c
      norm_dir_c)

lemma input_text_events [simp]:
  "input_text env a (s\<lparr>events := evs\<rparr>) = input_text env a s"
  by (simp add: input_text_def split: option.splits)

section \<open>The exit status of the command line\<close>




section \<open>Listing the devices\<close>

text \<open>
  C8. With \<open>-l\<close> and without \<open>--server\<close>, whatever the other arguments are, the process
  configures logging, prints the devices and ends: it adds none of the effects of the
  synthesis path (no directory, no download, no engine, no synthesis, no file, no
  playback) and leaves the file system as it was. Every call of \<open>text_to_speech\<close>
  leaves such an effect (lemma \<open>text_to_speech_leaves_effects\<close>), so no call took place.
\<close>

theorem list_devices_skips_synthesis:
  assumes "list_devices a" and "\<not> server a"
  shows "filter synthesis_effect (new_events s (snd (main env a s))) = [] \<and>
    kokoro_inits (new_events s (snd (main env a s))) = 0 \<and>
    files (snd (main env a s)) = files s \<and>
    dirs (snd (main env a s)) = dirs s \<and>
    new_events s (snd (main env a s)) =
      [BasicConfig (debug a), Stdout (CHR 0x0A # ''Available audio devices:''), QueryDevices]
        @ (case query_devices env of Inl e \<Rightarrow> [Traceback e] | Inr d \<Rightarrow> [Stdout d])"
  using assms
  by (simp add: main_def Let_def new_events_def kokoro_inits_def split: sum.splits)

theorem list_devices_skips_synthesis_witness:
  "list_devices (ex_args\<lparr>list_devices := True, input := Some ''hello'', output_arg := Some ''o.wav''\<rparr>) \<and>
   \<not> server (ex_args\<lparr>list_devices := True, input := Some ''hello'', output_arg := Some ''o.wav''\<rparr>) \<and>
   filter synthesis_effect (new_events empty_cli_state
     (snd (main ex_cli_env (ex_args\<lparr>list_devices := True, input := Some ''hello'',
        output_arg := Some ''o.wav''\<rparr>) empty_cli_state))) = [] \<and>
   files (snd (main ex_cli_env (ex_args\<lparr>list_devices := True, input := Some ''hello'',
        output_arg := Some ''o.wav''\<rparr>) empty_cli_state)) = Map.empty"
proof -
  let ?a = "ex_args\<lparr>list_devices := True, input := Some ''hello'', output_arg := Some ''o.wav''\<rparr>"
  have l: "list_devices ?a" and n: "\<not> server ?a"
    by (simp_all add: ex_args_def)
  have fe: "files empty_cli_state = Map.empty"
    by (simp add: empty_cli_state_def)
  from list_devices_skips_synthesis [OF l n, of empty_cli_state ex_cli_env]
  have "filter synthesis_effect (new_events empty_cli_state (snd (main ex_cli_env ?a empty_cli_state))) = []"
    and "files (snd (main ex_cli_env ?a empty_cli_state)) = files empty_cli_state"
    by blast+
  with l n fe show ?thesis
    by (simp only: simp_thms)
qed

section \<open>How often the model is loaded\<close>

text \<open>
  C3, as stated, fails on the command line path: two calls of \<open>text_to_speech\<close> in a
  row, both returning, construct the engine twice.
\<close>

theorem two_calls_construct_two_engines:
  "fst (text_to_speech ex_cli_env ''one'' None None ''af_sarah'' 1 ''en-us'' False ex_cli_state)
     = Inr () \<and>
   fst (text_to_speech ex_cli_env ''two'' None None ''af_sarah'' 1 ''en-us'' False
     (snd (text_to_speech ex_cli_env ''one'' None None ''af_sarah'' 1 ''en-us'' False ex_cli_state)))
     = Inr () \<and>
   kokoro_inits (events
     (snd (text_to_speech ex_cli_env ''two'' None None ''af_sarah'' 1 ''en-us'' False
       (snd (text_to_speech ex_cli_env ''one'' None None ''af_sarah'' 1 ''en-us'' False ex_cli_state)))))
     = 2"
  by (simp add: text_to_speech_ex) (simp add: kokoro_inits_def ex_cli_state_def)

text \<open>
  C3, amended. In kokorofile.py every call of \<open>text_to_speech\<close> that returns has
  constructed one more \<open>Kokoro\<close> engine: the model is loaded per call, on the command
  line and under \<open>/synthesize\<close>, and never reused. In server.py the model is loaded once
  when the module starts, before any request; no request loads it again, and the
  pipeline of every moment shares that one model.
\<close>

theorem model_loaded_per_call_and_once_per_server:
  "(text_to_speech env t out dev v sp l dbg s = (Inr u, s') \<longrightarrow>
      kokoro_inits (events s') = Suc (kokoro_inits (events s))) \<and>
   (startup senv = Inr s0 \<longrightarrow>
      kmodel_loads (trace s0) = 1 \<and>
      kmodel_loads (trace (serve rs s0)) = 1 \<and>
      core_model (serve rs s0) = core_model s0 \<and>
      pl_model (pipeline (serve rs s0)) = core_model s0)"
proof (intro conjI impI)
  assume "text_to_speech env t out dev v sp l dbg s = (Inr u, s')"
  then show "kokoro_inits (events s') = Suc (kokoro_inits (events s))"
    by (rule text_to_speech_constructs_engine)
next
  assume st: "startup senv = Inr s0"
  note s0 = startup_state [OF st]
  have one: "kmodel_loads (trace s0) = 1"
    by (subst s0) (simp add: kmodel_loads_def)
  have sh: "pl_model (pipeline s0) = core_model s0"
    by (subst (1 2) s0) simp
  show "kmodel_loads (trace s0) = 1" by (rule one)
  from serve_keeps [OF sh, of rs] one
  show "kmodel_loads (trace (serve rs s0)) = 1"
    and "core_model (serve rs s0) = core_model s0"
    and "pl_model (pipeline (serve rs s0)) = core_model s0"
    by simp_all
qed

theorem model_loaded_per_call_and_once_per_server_witness:
  "text_to_speech ex_cli_env ''one'' None None ''af_sarah'' 1 ''en-us'' False ex_cli_state
     = (Inr (), snd (text_to_speech ex_cli_env ''one'' None None ''af_sarah'' 1 ''en-us'' False ex_cli_state)) \<and>
   kokoro_inits (events (snd (text_to_speech ex_cli_env ''one'' None None ''af_sarah'' 1 ''en-us''
     False ex_cli_state))) = Suc (kokoro_inits (events ex_cli_state)) \<and>
   startup ex_srv_env = Inr ex_server \<and>
   kmodel_loads (trace (serve
     [(ex_srv_env, POST_synthesize_file \<lparr>req_text = Some ''hi'', req_voice = None\<rparr>),
      (ex_srv_env, POST_settings \<lparr>lang_code = ''a'', voice = ''af_sky.pt''\<rparr>),
      (ex_srv_env, POST_synthesize_file \<lparr>req_text = Some ''ho'', req_voice = None\<rparr>)] ex_server)) = 1"
proof -
  have c: "text_to_speech ex_cli_env ''one'' None None ''af_sarah'' 1 ''en-us'' False ex_cli_state
     = (Inr (), snd (text_to_speech ex_cli_env ''one'' None None ''af_sarah'' 1 ''en-us'' False ex_cli_state))"
    by (simp add: text_to_speech_ex)
  show ?thesis
    using c startup_ex_srv_env
      model_loaded_per_call_and_once_per_server [of ex_cli_env "''one''" None None "''af_sarah''" 1
        "''en-us''" False ex_cli_state "()"
        "snd (text_to_speech ex_cli_env ''one'' None None ''af_sarah'' 1 ''en-us'' False ex_cli_state)"
        ex_srv_env ex_server
        "[(ex_srv_env, POST_synthesize_file \<lparr>req_text = Some ''hi'', req_voice = None\<rparr>),
          (ex_srv_env, POST_settings \<lparr>lang_code = ''a'', voice = ''af_sky.pt''\<rparr>),
          (ex_srv_env, POST_synthesize_file \<lparr>req_text = Some ''ho'', req_voice = None\<rparr>)]"]
    by blast
qed

section \<open>Where a voice is validated\<close>

lemma synthesize_file_trace:
  "text_of d \<noteq> [] \<Longrightarrow>
   trace (snd (synthesize_file env d s))
     = trace s @ [CallPipeline (pipeline s) (text_of d) (voice_of s d)]"
  by (simp add: synthesize_file_unfold)

text \<open>
  C4, as stated, fails: \<open>/synthesize_file\<close> hands the voice of the request to the
  pipeline without looking at the voice directory. The voice \<open>nope\<close> is not among the
  available voices, the pipeline is called with it, and the answer is 200.
\<close>

theorem synthesize_file_takes_unlisted_voice:
  "''nope'' \<notin> set (get_available_voices ex_srv_env) \<and>
   trace (snd (synthesize_file ex_srv_env \<lparr>req_text = Some ''hi'', req_voice = Some ''nope''\<rparr> ex_server))
     = trace ex_server @ [CallPipeline (pipeline ex_server) ''hi'' ''nope''] \<and>
   status_code (fst (synthesize_file ex_srv_env \<lparr>req_text = Some ''hi'', req_voice = Some ''nope''\<rparr> ex_server))
     = 200"
proof -
  have t: "text_of \<lparr>req_text = Some ''hi'', req_voice = Some ''nope''\<rparr> = ''hi''"
    by (simp add: text_of_def strip_hi)
  have v: "voice_of ex_server \<lparr>req_text = Some ''hi'', req_voice = Some ''nope''\<rparr> = ''nope''"
    by (simp add: voice_of_def)
  have k: "kpipeline_call ex_srv_env p ''hi'' ''nope'' = Inr [[1, 2, 3, 4]]" for p
    by (simp add: ex_srv_env_def)
  have "36 + length [1, 2, 3, 4 :: byte] < (2::nat) ^ 32"
    by simp
  then have w: "write_wav [1, 2, 3, 4]
      = Inr (riff_header (length [1, 2, 3, 4 :: byte]) @ [1, 2, 3, 4])"
    by (rule write_wav_ok)
  show ?thesis
    by (simp add: synthesize_file_unfold t v k w voices_ex_srv_env)
qed

text \<open>
  C4, amended. In the HTTP variant a voice is validated in one place, \<open>POST /settings\<close>:
  after an update answered with 200 the stored voice is one of the available voices of
  that moment. \<open>/synthesize_file\<close> calls the pipeline with the voice of the request, or
  with the stored voice when the request names none, without validating it, and the
  command line passes its voice to the engine as it came.
\<close>

theorem voice_validated_by_settings_update_only:
  "(status_code (fst (update_settings env new s)) = 200 \<longrightarrow>
      voice (settings (snd (update_settings env new s))) \<in> set (get_available_voices env)) \<and>
   (text_of d \<noteq> [] \<longrightarrow>
      trace (snd (synthesize_file env d s))
        = trace s @ [CallPipeline (pipeline s) (text_of d) (voice_of s d)]) \<and>
   (text_to_speech cenv t out dev v sp l dbg cs = (Inr u, cs') \<longrightarrow>
      KokoroCreate t v sp l \<in> set (new_events cs cs'))"
proof (intro conjI impI)
  assume ok: "status_code (fst (update_settings env new s)) = 200"
  show "voice (settings (snd (update_settings env new s))) \<in> set (get_available_voices env)"
  proof (cases "voice new \<in> set (get_available_voices env)")
    case True
    then show ?thesis
      by (simp add: update_settings_accepts split: option.splits)
  next
    case False
    with ok show ?thesis
      by (simp add: update_settings_rejects)
  qed
next
  assume "text_of d \<noteq> []"
  then show "trace (snd (synthesize_file env d s))
      = trace s @ [CallPipeline (pipeline s) (text_of d) (voice_of s d)]"
    by (rule synthesize_file_trace)
next
  assume "text_to_speech cenv t out dev v sp l dbg cs = (Inr u, cs')"
  then show "KokoroCreate t v sp l \<in> set (new_events cs cs')"
    by (rule text_to_speech_constructs_engine)
qed

theorem voice_validated_by_settings_update_only_witness:
  "status_code (fst (update_settings ex_srv_env \<lparr>lang_code = ''a'', voice = ''af_sky.pt''\<rparr> ex_server)) = 200 \<and>
   voice (settings (snd (update_settings ex_srv_env \<lparr>lang_code = ''a'', voice = ''af_sky.pt''\<rparr> ex_server)))
     \<in> set (get_available_voices ex_srv_env) \<and>
   text_of \<lparr>req_text = Some ''hi'', req_voice = None\<rparr> \<noteq> [] \<and>
   trace (snd (synthesize_file ex_srv_env \<lparr>req_text = Some ''hi'', req_voice = None\<rparr> ex_server))
     = trace ex_server @ [CallPipeline (pipeline ex_server) ''hi'' ''af_sky''] \<and>
   ''af_sky'' \<notin> set (get_available_voices ex_srv_env) \<and>
   KokoroCreate ''one'' ''no_such_voice'' 1 ''en-us'' \<in> set (new_events ex_cli_state
     (snd (text_to_speech ex_cli_env ''one'' None None ''no_such_voice'' 1 ''en-us'' False ex_cli_state)))"
proof -
  let ?d = "\<lparr>req_text = Some ''hi'', req_voice = None\<rparr>"
  let ?n = "\<lparr>lang_code = ''a'', voice = ''af_sky.pt''\<rparr>"
  have yes: "voice ?n \<in> set (get_available_voices ex_srv_env)"
    by (simp add: voices_ex_srv_env)
  have ok: "status_code (fst (update_settings ex_srv_env ?n ex_server)) = 200"
    by (simp add: update_settings_accepts [OF yes]) (simp add: ex_srv_env_def)
  have t: "text_of ?d = ''hi''"
    by (simp add: text_of_def strip_hi)
  have v: "voice_of ex_server ?d = ''af_sky''"
    by (simp add: voice_of_def ex_server_def Settings_def)
  have no: "''af_sky'' \<notin> set (get_available_voices ex_srv_env)"
    by (simp add: voices_ex_srv_env)
  have c: "text_to_speech ex_cli_env ''one'' None None ''no_such_voice'' 1 ''en-us'' False ex_cli_state
     = (Inr (), snd (text_to_speech ex_cli_env ''one'' None None ''no_such_voice'' 1 ''en-us'' False ex_cli_state))"
    by (simp add: text_to_speech_ex)
  show ?thesis
    using ok t v no c
      voice_validated_by_settings_update_only [of ex_srv_env ?n ex_server ?d ex_cli_env "''one''"
        None None "''no_such_voice''" 1 "''en-us''" False ex_cli_state "()"
        "snd (text_to_speech ex_cli_env ''one'' None None ''no_such_voice'' 1 ''en-us'' False ex_cli_state)"]
    by simp
qed

section \<open>Settings and pipeline along a run\<close>

lemma serve_coherent:
  assumes "\<And>env r lc. (env, r) \<in> set rs \<Longrightarrow> kpipeline_init env lc = None"
    and "pl_lang_code (pipeline s) = lang_code (settings s)"
  shows "pl_lang_code (pipeline (serve rs s)) = lang_code (settings (serve rs s))"
  using assms
proof (induction rs arbitrary: s)
  case Nil
  then show ?case by simp
next
  case (Cons er rs)
  obtain env r where er: "er = (env, r)" by (cases er)
  have "pl_lang_code (pipeline (snd (handle env r s))) = lang_code (settings (snd (handle env r s)))"
    by (rule handle_coherent) (use Cons.prems er in auto)
  then have "pl_lang_code (pipeline (serve rs (snd (handle env r s))))
      = lang_code (settings (serve rs (snd (handle env r s))))"
    by (rule Cons.IH [rotated]) (use Cons.prems in auto)
  then show ?case by (simp add: er)
qed

end
